theory Spec2Isabelle
  imports Complex_Main "HOL-Library.Word"
begin

section \<open>JavaScript strings\<close>

text \<open>
  A JavaScript string is a sequence of UTF-16 code units, and \<^verbatim>\<open>length\<close>,
  \<^verbatim>\<open>substring\<close>, \<^verbatim>\<open>split\<close> and the regular expressions of the sources
  (none has the \<^verbatim>\<open>u\<close> flag) all work on code units. A code unit is a 16-bit
  word; \<open>js\<close> turns an ASCII literal into such a string.
\<close>

type_synonym uchar = "16 word"
type_synonym jsstring = "uchar list"

definition js :: "string \<Rightarrow> jsstring" where
  "js s = map (\<lambda>c. of_nat (of_char c)) s"

text \<open>
  The class \<^verbatim>\<open>\s\<close> of a JavaScript regular expression, which is also what
  \<^verbatim>\<open>trim\<close> strips: WhiteSpace and LineTerminator of the language specification.
\<close>

definition is_ws :: "uchar \<Rightarrow> bool" where
  "is_ws c \<longleftrightarrow>
     (9 \<le> c \<and> c \<le> 13) \<or> c = 32 \<or> c = 160 \<or> c = 0x1680 \<or>
     (0x2000 \<le> c \<and> c \<le> 0x200A) \<or> c = 0x2028 \<or> c = 0x2029 \<or>
     c = 0x202F \<or> c = 0x205F \<or> c = 0x3000 \<or> c = 0xFEFF"

definition trim :: "jsstring \<Rightarrow> jsstring" where
  "trim s = rev (dropWhile is_ws (rev (dropWhile is_ws s)))"

text \<open>\<^verbatim>\<open>s.startsWith(p)\<close> and \<^verbatim>\<open>s.includes(p)\<close>.\<close>

definition startsWith :: "jsstring \<Rightarrow> jsstring \<Rightarrow> bool" where
  "startsWith s p \<longleftrightarrow> take (length p) s = p"

fun includes_str :: "jsstring \<Rightarrow> jsstring \<Rightarrow> bool" where
  "includes_str [] p = (p = [])"
| "includes_str (x # xs) p = (startsWith (x # xs) p \<or> includes_str xs p)"

text \<open>
  \<^verbatim>\<open>s.split(/[...]+/)\<close> for a character class \<open>P\<close>: the pieces between the maximal
  runs of characters of the class. A run at the start or at the end of the string
  gives an empty first or last piece, and the empty string gives one empty piece,
  so the result is never empty.
\<close>

fun prepend :: "'a \<Rightarrow> 'a list list \<Rightarrow> 'a list list" where
  "prepend x [] = [[x]]"
| "prepend x (w # ws) = (x # w) # ws"

fun split_runs :: "('a \<Rightarrow> bool) \<Rightarrow> 'a list \<Rightarrow> 'a list list" where
  "split_runs P [] = [[]]"
| "split_runs P (x # xs) =
     (if P x then
        (case xs of
           [] \<Rightarrow> [] # split_runs P xs
         | y # _ \<Rightarrow> if P y then split_runs P xs else [] # split_runs P xs)
      else prepend x (split_runs P xs))"

text \<open>\<^verbatim>\<open>s.split(sep)\<close> for a string separator: left to right, without overlaps.\<close>

function split_str :: "'a list \<Rightarrow> 'a list \<Rightarrow> 'a list list" where
  "split_str sep s =
     (if sep = [] then map (\<lambda>c. [c]) s
      else if s = [] then [[]]
      else if take (length sep) s = sep then [] # split_str sep (drop (length sep) s)
      else prepend (hd s) (split_str sep (tl s)))"
  by pat_completeness auto
termination
  by (relation "measure (\<lambda>(sep, s). length s)") auto

declare split_str.simps [simp del]

section \<open>Content Quality Gate (scrape.ts)\<close>

definition MAX_WORKERS :: nat where "MAX_WORKERS = 3"
definition MIN_CONTENT_LENGTH :: nat where "MIN_CONTENT_LENGTH = 100"
definition MIN_SENTENCES :: nat where "MIN_SENTENCES = 3"
definition MIN_WORD_LENGTH :: rat where "MIN_WORD_LENGTH = 3"

definition is_sentence_end :: "uchar \<Rightarrow> bool" where
  "is_sentence_end c \<longleftrightarrow> c = 0x2E \<or> c = 0x21 \<or> c = 0x3F"

definition blockedPhrases :: "jsstring list" where
  "blockedPhrases =
     [js ''404'', js ''Access Denied'', js ''Please enable JavaScript'',
      js ''Robot Check'', js ''Captcha'']"

text \<open>
  \<^verbatim>\<open>isContentMeaningful\<close>. The argument is a string, so the source's tests
  \<^verbatim>\<open>!content\<close> and \<^verbatim>\<open>typeof content !== 'string'\<close> come to: the string is empty.
  \<^verbatim>\<open>content.length / wordCount\<close> is a quotient of two small integers, compared
  with 3; it is taken as a rational number.
\<close>

definition isContentMeaningful :: "jsstring \<Rightarrow> bool" where
  "isContentMeaningful txt =
     (if txt = [] \<or> length (trim txt) = 0 then False
      else
        let words = split_runs is_ws txt;
            wordCount' = length words
        in
        if wordCount' = 0 then False
        else
          let sentenceCount = length (split_runs is_sentence_end txt);
              averageWordLength' = (of_nat (length txt) :: rat) / of_nat wordCount';
              hasBlockedPhrases = list_ex (\<lambda>phrase. includes_str txt phrase) blockedPhrases
          in wordCount' \<ge> MIN_CONTENT_LENGTH \<and>
             sentenceCount \<ge> MIN_SENTENCES \<and>
             averageWordLength' \<ge> MIN_WORD_LENGTH \<and>
             \<not> hasBlockedPhrases)"

section \<open>Data model (scrape.ts, cache.ts)\<close>

text \<open>
  A thrown value: \<open>Error m\<close> is an \<^verbatim>\<open>Error\<close> object (or one of a subclass, such as
  \<^verbatim>\<open>ScrapingError\<close>) with message \<open>m\<close>; \<open>Thrown v\<close> is any other thrown value,
  \<open>v\<close> being what \<^verbatim>\<open>String(value)\<close> gives.
\<close>

datatype exn = Error jsstring | Thrown jsstring

text \<open>\<^verbatim>\<open>error instanceof Error ? error.message : String(error)\<close>\<close>

fun exn_text :: "exn \<Rightarrow> jsstring" where
  "exn_text (Error m) = m"
| "exn_text (Thrown v) = v"

text \<open>\<^verbatim>\<open>${error.message}\<close> in a template string\<close>

fun exn_message :: "exn \<Rightarrow> jsstring" where
  "exn_message (Error m) = m"
| "exn_message (Thrown v) = js ''undefined''"

datatype scrape_method = Cheerio | Puppeteer | Cache

text \<open>Times are the floating-point milliseconds of \<^verbatim>\<open>performance.now()\<close>, taken as rationals.\<close>

text \<open>The field \<^verbatim>\<open>method\<close> of the metrics is \<open>metrics_method\<close>, and \<^verbatim>\<open>success\<close> is \<open>metrics_success\<close>.\<close>

record ScrapingMetrics =
  startTime :: rat
  cheerioAttemptTime :: "rat option"
  puppeteerAttemptTime :: "rat option"
  totalTime :: rat
  metrics_success :: bool
  metrics_method :: scrape_method

record ContentStats =
  wordCount :: nat
  characterCount :: nat
  paragraphCount :: nat
  averageWordLength :: rat

record ScrapingResult =
  content :: jsstring
  title :: jsstring
  success :: bool
  error :: "jsstring option"
  url :: jsstring
  timestamp :: jsstring
  scrapeMethod :: "jsstring option"
  metrics :: "ScrapingMetrics option"
  contentStats :: "ContentStats option"

record ChatEntry =
  userMessage :: jsstring
  aiResponse :: jsstring
  entry_timestamp :: jsstring

text \<open>What \<^verbatim>\<open>redis.get\<close> hands back: a value already parsed, or text.\<close>

datatype redis_data = RObject ScrapingResult | RString jsstring

type_synonym browser = nat

text \<open>The calls that leave the process, in the order they are made.\<close>

datatype effect =
    RedisGet jsstring
  | RedisSet jsstring
  | RedisLPush jsstring
  | RedisLTrim jsstring
  | NetworkFetch jsstring
  | BrowserLaunch
  | PageRender browser jsstring

text \<open>
  The state that outlives a call: the Redis store (keys with a value, keys with a
  list), the renderer sessions of the \<^verbatim>\<open>BrowserPool\<close> singleton with their
  \<^verbatim>\<open>lastUsed\<close>, what was written to the error console, and the effects so far.
\<close>

record world =
  redis_store :: "jsstring \<rightharpoonup> redis_data"
  redis_lists :: "jsstring \<Rightarrow> jsstring list"
  browsers :: "(browser \<times> rat) list"
  console :: "(jsstring \<times> exn) list"
  trace :: "effect list"

text \<open>
  What the outside does during one call, and the library functions the sources
  import: whether a Redis command rejects, \<^verbatim>\<open>JSON.parse\<close> and
  \<^verbatim>\<open>JSON.stringify\<close>, the SHA-256 hex digest of \<^verbatim>\<open>crypto\<close>, what
  \<^verbatim>\<open>fetch(url)\<close> followed by \<^verbatim>\<open>response.text()\<close> gives, what the cheerio
  extraction \<^verbatim>\<open>scrapeWithCheerio(html)\<close> gives, what opening a page on a session,
  loading the URL and evaluating the extraction script gives (the page is closed
  in the \<^verbatim>\<open>finally\<close>), whether \<^verbatim>\<open>browser.pages()\<close> and
  \<^verbatim>\<open>browser.close()\<close> reject, what \<^verbatim>\<open>puppeteer.launch\<close> gives, and the clocks:
  \<open>performance_now env k\<close> is the k-th reading of \<^verbatim>\<open>performance.now()\<close> in the call.
  \<^verbatim>\<open>JSON.parse\<close> is restricted to texts that hold a scraping result or do not parse.
\<close>

record env =
  redis_get_error :: "jsstring \<Rightarrow> exn option"
  redis_set_error :: "jsstring \<Rightarrow> exn option"
  redis_lpush_error :: "jsstring \<Rightarrow> exn option"
  redis_ltrim_error :: "jsstring \<Rightarrow> exn option"
  JSON_parse :: "jsstring \<Rightarrow> exn + ScrapingResult"
  JSON_stringify :: "ScrapingResult \<Rightarrow> jsstring"
  JSON_stringify_entry :: "ChatEntry \<Rightarrow> jsstring"
  sha256_hex :: "jsstring \<Rightarrow> jsstring"
  fetch_text :: "jsstring \<Rightarrow> exn + jsstring"
  scrapeWithCheerio :: "jsstring \<Rightarrow> exn + jsstring"
  page_extract :: "browser \<Rightarrow> jsstring \<Rightarrow> exn + jsstring"
  pages_fails :: "browser \<Rightarrow> bool"
  close_error :: "browser \<Rightarrow> exn option"
  puppeteer_launch :: "exn + browser"
  performance_now :: "nat \<Rightarrow> rat"
  Date_now :: rat
  Date_toISOString :: jsstring

definition effect :: "effect \<Rightarrow> world \<Rightarrow> world" where
  "effect e w = w\<lparr>trace := trace w @ [e]\<rparr>"

text \<open>\<^verbatim>\<open>logError(context, error)\<close> and \<^verbatim>\<open>console.error(label, error)\<close>\<close>

definition logError :: "jsstring \<Rightarrow> exn \<Rightarrow> world \<Rightarrow> world" where
  "logError context e w = w\<lparr>console := console w @ [(context, e)]\<rparr>"

section \<open>Cache Layer (cache.ts)\<close>

definition CACHE_PREFIX :: jsstring where
  "CACHE_PREFIX = js ''cache:''"

definition SCRAPE_CACHE_PREFIX :: jsstring where
  "SCRAPE_CACHE_PREFIX = CACHE_PREFIX @ js ''scrape:''"

definition AI_CACHE_PREFIX :: jsstring where
  "AI_CACHE_PREFIX = CACHE_PREFIX @ js ''ai:''"

definition CHAT_HISTORY_PREFIX :: jsstring where
  "CHAT_HISTORY_PREFIX = CACHE_PREFIX @ js ''chat:''"

definition createCacheKey :: "env \<Rightarrow> jsstring \<Rightarrow> jsstring \<Rightarrow> jsstring \<Rightarrow> exn + jsstring" where
  "createCacheKey env content' prefix conversationId =
     (if content' = [] \<or> prefix = [] \<or> conversationId = [] then
        Inl (Error (js ''Content, prefix, and conversationId must be provided to create a cache key.''))
      else
        let hash = sha256_hex env content'
        in Inr (prefix @ conversationId @ js '':'' @ hash))"

text \<open>The Redis commands: each is one effect, and rejects when the outside says so.\<close>

definition redis_get :: "env \<Rightarrow> world \<Rightarrow> jsstring \<Rightarrow> (exn + redis_data option) \<times> world" where
  "redis_get env w key =
     (case redis_get_error env key of
        Some e \<Rightarrow> (Inl e, effect (RedisGet key) w)
      | None \<Rightarrow> (Inr (redis_store w key), effect (RedisGet key) w))"

definition redis_set :: "env \<Rightarrow> world \<Rightarrow> jsstring \<Rightarrow> jsstring \<Rightarrow> (exn + unit) \<times> world" where
  "redis_set env w key v =
     (case redis_set_error env key of
        Some e \<Rightarrow> (Inl e, effect (RedisSet key) w)
      | None \<Rightarrow>
          (Inr (), effect (RedisSet key) (w\<lparr>redis_store := (redis_store w)(key \<mapsto> RString v)\<rparr>)))"

definition redis_lpush :: "env \<Rightarrow> world \<Rightarrow> jsstring \<Rightarrow> jsstring \<Rightarrow> (exn + unit) \<times> world" where
  "redis_lpush env w key v =
     (case redis_lpush_error env key of
        Some e \<Rightarrow> (Inl e, effect (RedisLPush key) w)
      | None \<Rightarrow>
          (Inr (), effect (RedisLPush key)
                     (w\<lparr>redis_lists := (redis_lists w)(key := v # redis_lists w key)\<rparr>)))"

text \<open>\<^verbatim>\<open>redis.ltrim(key, 0, stop)\<close> keeps the elements 0 to \<open>stop\<close>.\<close>

definition redis_ltrim0 :: "env \<Rightarrow> world \<Rightarrow> jsstring \<Rightarrow> nat \<Rightarrow> (exn + unit) \<times> world" where
  "redis_ltrim0 env w key stop =
     (case redis_ltrim_error env key of
        Some e \<Rightarrow> (Inl e, effect (RedisLTrim key) w)
      | None \<Rightarrow>
          (Inr (), effect (RedisLTrim key)
                     (w\<lparr>redis_lists := (redis_lists w)(key := take (Suc stop) (redis_lists w key))\<rparr>)))"

text \<open>
  \<^verbatim>\<open>getCachedContent\<close>: the body of the outer \<^verbatim>\<open>try\<close>, with the inner
  \<^verbatim>\<open>try\<close> around \<^verbatim>\<open>JSON.parse\<close>, then the outer \<^verbatim>\<open>catch\<close>. A missing
  value and the empty text are falsy.
\<close>

definition getCachedContent_try ::
  "env \<Rightarrow> world \<Rightarrow> jsstring \<Rightarrow> (exn + ScrapingResult option) \<times> world" where
  "getCachedContent_try env w key =
     (case redis_get env w key of
        (Inl e, w1) \<Rightarrow> (Inl e, w1)
      | (Inr None, w1) \<Rightarrow> (Inr None, w1)
      | (Inr (Some (RObject v)), w1) \<Rightarrow> (Inr (Some v), w1)
      | (Inr (Some (RString s)), w1) \<Rightarrow>
          if s = [] then (Inr None, w1)
          else
            (case JSON_parse env s of
               Inr v \<Rightarrow> (Inr (Some v), w1)
             | Inl parseError \<Rightarrow> (Inr None, logError (js ''JSON Parse'') parseError w1)))"

definition getCachedContent ::
  "env \<Rightarrow> world \<Rightarrow> jsstring \<Rightarrow> (exn + ScrapingResult option) \<times> world" where
  "getCachedContent env w key =
     (case getCachedContent_try env w key of
        (Inr v, w1) \<Rightarrow> (Inr v, w1)
      | (Inl e, w1) \<Rightarrow> (Inr None, logError (js ''getCachedContent'') e w1))"

text \<open>
  \<^verbatim>\<open>setCachedContent\<close>; the value is a scraping result, or \<open>None\<close> for
  \<^verbatim>\<open>null\<close> and \<^verbatim>\<open>undefined\<close>. A scraping result has the properties
  \<^verbatim>\<open>content\<close> and \<^verbatim>\<open>success\<close>, so it takes the first serialisation branch,
  whose replacer leaves plain data as it is.
\<close>

definition CACHE_DURATION :: nat where "CACHE_DURATION = 3600"

definition setCachedContent_try ::
  "env \<Rightarrow> world \<Rightarrow> jsstring \<Rightarrow> ScrapingResult option \<Rightarrow> (exn + unit) \<times> world" where
  "setCachedContent_try env w key content' =
     (case content' of
        None \<Rightarrow> (Inl (Error (js ''Cannot cache null or undefined content'')), w)
      | Some r \<Rightarrow>
          let serializedContent = JSON_stringify env r
          in redis_set env w key serializedContent)"

definition setCachedContent ::
  "env \<Rightarrow> world \<Rightarrow> jsstring \<Rightarrow> ScrapingResult option \<Rightarrow> (exn + unit) \<times> world" where
  "setCachedContent env w key content' =
     (case setCachedContent_try env w key content' of
        (Inr u, w1) \<Rightarrow> (Inr u, w1)
      | (Inl e, w1) \<Rightarrow> (Inr (), logError (js ''setCachedContent'') e w1))"

text \<open>\<^verbatim>\<open>storeChat\<close>: the \<^verbatim>\<open>catch\<close> logs and throws a new error.\<close>

definition storeChat_try ::
  "env \<Rightarrow> world \<Rightarrow> jsstring \<Rightarrow> ChatEntry \<Rightarrow> (exn + unit) \<times> world" where
  "storeChat_try env w conversationId chatEntry =
     (let serializedEntry = JSON_stringify_entry env chatEntry
      in case redis_lpush env w (CHAT_HISTORY_PREFIX @ conversationId) serializedEntry of
           (Inl e, w1) \<Rightarrow> (Inl e, w1)
         | (Inr _, w1) \<Rightarrow> redis_ltrim0 env w1 (CHAT_HISTORY_PREFIX @ conversationId) 49)"

definition storeChat ::
  "env \<Rightarrow> world \<Rightarrow> jsstring \<Rightarrow> jsstring \<Rightarrow> jsstring \<Rightarrow> (exn + unit) \<times> world" where
  "storeChat env w conversationId userMessage' aiResponse' =
     (let chatEntry = \<lparr>userMessage = userMessage', aiResponse = aiResponse',
                       entry_timestamp = Date_toISOString env\<rparr>
      in case storeChat_try env w conversationId chatEntry of
           (Inr u, w1) \<Rightarrow> (Inr u, w1)
         | (Inl e, w1) \<Rightarrow>
             (Inl (Error (js ''Failed to store chat history'')), logError (js ''storeChat'') e w1))"

section \<open>Resource Pool (scrape.ts, class BrowserPool)\<close>

definition maxBrowsers :: nat where
  "maxBrowsers = MAX_WORKERS"

text \<open>\<^verbatim>\<open>array.splice(index, 1)\<close>\<close>

definition splice1 :: "nat \<Rightarrow> 'a list \<Rightarrow> 'a list" where
  "splice1 index xs = take index xs @ drop (Suc index) xs"

text \<open>
  \<^verbatim>\<open>checkBrowserHealth\<close>: the first loop collects the indices of the sessions
  whose \<^verbatim>\<open>pages()\<close> rejects; the second closes and removes them, last index
  first, and writes a failing \<^verbatim>\<open>close()\<close> to the console.
\<close>

definition unhealthyBrowsers :: "env \<Rightarrow> (browser \<times> rat) list \<Rightarrow> nat list" where
  "unhealthyBrowsers env bs = filter (\<lambda>index. pages_fails env (fst (bs ! index))) [0..<length bs]"

definition evict :: "env \<Rightarrow> nat \<Rightarrow> world \<Rightarrow> world" where
  "evict env index w =
     (let w1 = (case close_error env (fst (browsers w ! index)) of
                  Some e \<Rightarrow> logError (js ''Error closing unhealthy browser:'') e w
                | None \<Rightarrow> w)
      in w1\<lparr>browsers := splice1 index (browsers w1)\<rparr>)"

definition checkBrowserHealth :: "env \<Rightarrow> world \<Rightarrow> world" where
  "checkBrowserHealth env w = fold (evict env) (rev (unhealthyBrowsers env (browsers w))) w"

text \<open>
  The \<^verbatim>\<open>reduce\<close> of \<^verbatim>\<open>getBrowser\<close>, on indices: it starts from the first
  element and keeps the earlier of two elements only when its \<^verbatim>\<open>lastUsed\<close> is
  strictly smaller.
\<close>

definition leastRecentlyUsed :: "(browser \<times> rat) list \<Rightarrow> nat" where
  "leastRecentlyUsed bs =
     foldl (\<lambda>prev curr. if snd (bs ! prev) < snd (bs ! curr) then prev else curr) 0 [1..<length bs]"

text \<open>
  \<^verbatim>\<open>getBrowser\<close> awaits \<^verbatim>\<open>puppeteer.launch\<close> between the test of the pool's
  length and the \<^verbatim>\<open>push\<close>, and other calls can run while it waits. So the body
  of its \<^verbatim>\<open>try\<close> is two parts. The first is the health sweep and the test: at the
  cap it ends the call with the least recently used session (\<open>Some\<close>), below the
  cap it starts the launch and leaves the call waiting (\<open>None\<close>). The second runs
  when the launch has resolved: it pushes the new session with the time of that
  moment, or passes on the exception of the launch.
\<close>

definition getBrowser_begin :: "env \<Rightarrow> world \<Rightarrow> (exn + browser) option \<times> world" where
  "getBrowser_begin env w =
     (let w1 = checkBrowserHealth env w in
      if length (browsers w1) < maxBrowsers then (None, effect BrowserLaunch w1)
      else if browsers w1 = [] then
        (Some (Inl (Error (js ''Reduce of empty array with no initial value''))), w1)
      else
        let i = leastRecentlyUsed (browsers w1);
            b = fst (browsers w1 ! i)
        in (Some (Inr b), w1\<lparr>browsers := (browsers w1)[i := (b, Date_now env)]\<rparr>))"

definition getBrowser_resume :: "env \<Rightarrow> world \<Rightarrow> (exn + browser) \<times> world" where
  "getBrowser_resume env w =
     (case puppeteer_launch env of
        Inl e \<Rightarrow> (Inl e, w)
      | Inr b \<Rightarrow> (Inr b, w\<lparr>browsers := browsers w @ [(b, Date_now env)]\<rparr>))"

text \<open>The \<^verbatim>\<open>catch\<close> of \<^verbatim>\<open>getBrowser\<close>, applied to what the body gave.\<close>

definition getBrowser_catch :: "(exn + browser) \<times> world \<Rightarrow> (exn + browser) \<times> world" where
  "getBrowser_catch rw =
     (case rw of
        (Inr b, w1) \<Rightarrow> (Inr b, w1)
      | (Inl e, w1) \<Rightarrow>
          (Inl (Error (js ''Failed to launch browser: '' @ exn_message e)),
           logError (js ''Browser launch failed:'') e w1))"

text \<open>
  A call of \<^verbatim>\<open>getBrowser\<close> during which no other call runs: the second part
  follows the first on the world the first has left.
\<close>

definition getBrowser_try :: "env \<Rightarrow> world \<Rightarrow> (exn + browser) \<times> world" where
  "getBrowser_try env w =
     (case getBrowser_begin env w of
        (None, w1) \<Rightarrow> getBrowser_resume env w1
      | (Some r, w1) \<Rightarrow> (r, w1))"

definition getBrowser :: "env \<Rightarrow> world \<Rightarrow> (exn + browser) \<times> world" where
  "getBrowser env w = getBrowser_catch (getBrowser_try env w)"

text \<open>
  Calls that overlap. The pool is one object for the whole process, and every request
  that reaches the dynamic extraction calls \<^verbatim>\<open>getBrowser\<close> on it. A schedule is a
  list of events: \<open>Enter env\<close>, a call starts and runs its first part; and
  \<open>LaunchDone env\<close>, the launch of one waiting call resolves and the call runs its
  second part (an event with no call waiting does nothing). The state is the world
  and the number of waiting calls. The awaits inside the health sweep and after it
  are not split, so the schedules of the model are among those of the program.
\<close>

datatype pool_event = Enter env | LaunchDone env

fun pool_run :: "pool_event list \<Rightarrow> world \<times> nat \<Rightarrow> world \<times> nat" where
  "pool_run [] s = s"
| "pool_run (Enter env # es) (w, n) =
     (case getBrowser_begin env w of
        (None, w1) \<Rightarrow> pool_run es (w1, Suc n)
      | (Some r, w1) \<Rightarrow> pool_run es (snd (getBrowser_catch (r, w1)), n))"
| "pool_run (LaunchDone env # es) (w, n) =
     (case n of
        0 \<Rightarrow> pool_run es (w, 0)
      | Suc m \<Rightarrow> pool_run es (snd (getBrowser_catch (getBrowser_resume env w)), m))"

section \<open>Scrape Orchestrator (scrape.ts)\<close>

text \<open>
  \<^verbatim>\<open>scrapeWithPuppeteer\<close>: a session of the pool, then the page work on it, which
  is one call of the outside.
\<close>

definition scrapeWithPuppeteer :: "env \<Rightarrow> world \<Rightarrow> jsstring \<Rightarrow> (exn + jsstring) \<times> world" where
  "scrapeWithPuppeteer env w u =
     (case getBrowser env w of
        (Inl e, w1) \<Rightarrow> (Inl e, w1)
      | (Inr b, w1) \<Rightarrow> (page_extract env b u, effect (PageRender b u) w1))"

text \<open>\<^verbatim>\<open>content.split('\n')[0]?.trim() || 'Untitled Content'\<close>\<close>

definition title_of :: "jsstring \<Rightarrow> jsstring" where
  "title_of c =
     (let t = trim (hd (split_str [10] c))
      in if t = [] then js ''Untitled Content'' else t)"

definition stats_of :: "jsstring \<Rightarrow> ContentStats" where
  "stats_of c =
     \<lparr>wordCount = length (split_runs is_ws c),
      characterCount = length c,
      paragraphCount = length (split_str [10, 10] c),
      averageWordLength = of_nat (length c) / of_nat (length (split_runs is_ws c))\<rparr>"

definition scrapeCacheKey :: "env \<Rightarrow> jsstring \<Rightarrow> jsstring" where
  "scrapeCacheKey env u = js ''scrape:'' @ sha256_hex env u"

text \<open>
  The body of the \<^verbatim>\<open>try\<close> of \<^verbatim>\<open>scrapeWebContent\<close>. The object
  \<^verbatim>\<open>metrics\<close> is updated in place on the way and read by the \<^verbatim>\<open>catch\<close>, so
  an exception leaves the body together with the metrics of that moment.
\<close>

definition scrape_success ::
  "env \<Rightarrow> jsstring \<Rightarrow> jsstring \<Rightarrow> jsstring \<Rightarrow> ScrapingMetrics \<Rightarrow> ScrapingResult" where
  "scrape_success env u c how m =
     \<lparr>content = c, title = title_of c, success = True, error = None, url = u,
      timestamp = Date_toISOString env, scrapeMethod = Some how, metrics = Some m,
      contentStats = Some (stats_of c)\<rparr>"

definition scrape_failure ::
  "env \<Rightarrow> jsstring \<Rightarrow> jsstring \<Rightarrow> jsstring \<Rightarrow> ScrapingMetrics \<Rightarrow> ScrapingResult" where
  "scrape_failure env u ttl err m =
     \<lparr>content = [], title = ttl, success = False, error = Some err, url = u,
      timestamp = Date_toISOString env, scrapeMethod = None, metrics = Some m,
      contentStats = None\<rparr>"

text \<open>The object \<^verbatim>\<open>metrics\<close> as \<^verbatim>\<open>scrapeWebContent\<close> creates it.\<close>

abbreviation metrics0 :: "env \<Rightarrow> ScrapingMetrics" where
  "metrics0 env \<equiv>
     \<lparr>startTime = performance_now env 0, cheerioAttemptTime = None,
      puppeteerAttemptTime = None, totalTime = 0, metrics_success = False,
      metrics_method = Cheerio\<rparr>"

definition scrapeWebContent_try ::
  "env \<Rightarrow> world \<Rightarrow> jsstring \<Rightarrow> jsstring \<Rightarrow> ScrapingMetrics \<Rightarrow>
   ((exn \<times> ScrapingMetrics) + ScrapingResult) \<times> world" where
  "scrapeWebContent_try env w u cacheKey m0 =
     (case getCachedContent env w cacheKey of
        (Inl e, w1) \<Rightarrow> (Inl (e, m0), w1)
      | (Inr (Some cachedContent), w1) \<Rightarrow>
          let m1 = m0\<lparr>metrics_method := Cache\<rparr>;
              m2 = m1\<lparr>totalTime := performance_now env 1 - startTime m1\<rparr>
          in (Inr (cachedContent\<lparr>metrics := Some m2\<rparr>), w1)
      | (Inr None, w1) \<Rightarrow>
          let m1 = m0\<lparr>cheerioAttemptTime := Some (performance_now env 1)\<rparr>;
              w2 = effect (NetworkFetch u) w1
          in
          (case fetch_text env u of
             Inl e \<Rightarrow> (Inl (e, m1), w2)
           | Inr html \<Rightarrow>
          (case scrapeWithCheerio env html of
             Inl e \<Rightarrow> (Inl (e, m1), w2)
           | Inr c \<Rightarrow>
          if isContentMeaningful c then
            let m2 = m1\<lparr>metrics_success := True\<rparr>;
                m3 = m2\<lparr>totalTime := performance_now env 2 - startTime m2\<rparr>;
                result = scrape_success env u c (js ''cheerio'') m3
            in
            (case setCachedContent env w2 cacheKey (Some result) of
               (Inl e, w3) \<Rightarrow> (Inl (e, m3), w3)
             | (Inr _, w3) \<Rightarrow> (Inr result, w3))
          else
            let m2 = m1\<lparr>metrics_method := Puppeteer\<rparr>;
                m3 = m2\<lparr>puppeteerAttemptTime := Some (performance_now env 2)\<rparr>
            in
            (case scrapeWithPuppeteer env w2 u of
               (Inl e, w3) \<Rightarrow> (Inl (e, m3), w3)
             | (Inr dynamicContent, w3) \<Rightarrow>
            if isContentMeaningful dynamicContent then
              let m4 = m3\<lparr>metrics_success := True\<rparr>;
                  m5 = m4\<lparr>totalTime := performance_now env 3 - startTime m4\<rparr>;
                  result = scrape_success env u dynamicContent (js ''puppeteer'') m5
              in
              (case setCachedContent env w3 cacheKey (Some result) of
                 (Inl e, w4) \<Rightarrow> (Inl (e, m5), w4)
               | (Inr _, w4) \<Rightarrow> (Inr result, w4))
            else
              let m4 = m3\<lparr>totalTime := performance_now env 3 - startTime m3\<rparr>
              in (Inr (scrape_failure env u (js ''Failed to extract meaningful content'')
                         (js ''Content validation failed'') m4), w3)))))"

text \<open>
  \<^verbatim>\<open>scrapeWebContent\<close>: the URL check, the cache key, the \<^verbatim>\<open>try\<close> and its
  \<^verbatim>\<open>catch\<close>. The clock reading of the \<^verbatim>\<open>catch\<close> is the one after the last
  reading of the body.
\<close>

definition readings :: "ScrapingMetrics \<Rightarrow> nat" where
  "readings m =
     (if puppeteerAttemptTime m \<noteq> None then 3
      else if cheerioAttemptTime m \<noteq> None then 2
      else 1)"

definition scrapeWebContent :: "env \<Rightarrow> world \<Rightarrow> jsstring \<Rightarrow> (exn + ScrapingResult) \<times> world" where
  "scrapeWebContent env w u =
     (let m0 = metrics0 env
      in
      if u = [] \<or> \<not> startsWith u (js ''http'') then
        (Inr (scrape_failure env u (js ''Invalid URL'') (js ''Invalid URL provided'') m0), w)
      else
        let cacheKey = scrapeCacheKey env u in
        (case scrapeWebContent_try env w u cacheKey m0 of
           (Inr result, w1) \<Rightarrow> (Inr result, w1)
         | (Inl (e, m), w1) \<Rightarrow>
             let m' = m\<lparr>totalTime := performance_now env (readings m) - startTime m\<rparr>
             in (Inr (scrape_failure env u (js ''Scraping Failed'') (exn_text e) m'),
                 logError (js ''Scraping failed for '' @ u @ js '':'') e w1)))"

section \<open>Information Gatherer (search.ts)\<close>

definition gathererCacheKey :: "jsstring \<Rightarrow> jsstring" where
  "gathererCacheKey u = SCRAPE_CACHE_PREFIX @ u"

text \<open>
  The loop of \<^verbatim>\<open>gatherInformation\<close> over the URLs. The cache lookup is outside the
  \<^verbatim>\<open>try\<close>; the scrape and the write-back are inside, and their exception is
  written to the console and the URL skipped. Each iteration has its own outside:
  \<open>envs i\<close> is what the outside does, and what the clocks read, during the
  iteration of index \<open>i\<close>.
\<close>

definition gather_scrape ::
  "env \<Rightarrow> world \<Rightarrow> jsstring \<Rightarrow> jsstring \<Rightarrow> (exn + ScrapingResult) \<times> world" where
  "gather_scrape env w u cacheKey =
     (case scrapeWebContent env w u of
        (Inl e, w1) \<Rightarrow> (Inl e, w1)
      | (Inr scrapingResult, w1) \<Rightarrow>
          if success scrapingResult then
            (case setCachedContent env w1 cacheKey (Some scrapingResult) of
               (Inl e, w2) \<Rightarrow> (Inl e, w2)
             | (Inr _, w2) \<Rightarrow> (Inr scrapingResult, w2))
          else (Inr scrapingResult, w1))"

fun gather_loop ::
  "(nat \<Rightarrow> env) \<Rightarrow> nat \<Rightarrow> world \<Rightarrow> jsstring list \<Rightarrow> ScrapingResult list \<Rightarrow>
   (exn + ScrapingResult list) \<times> world" where
  "gather_loop envs i w [] results = (Inr results, w)"
| "gather_loop envs i w (u # urls) results =
     (let env = envs i;
          cacheKey = gathererCacheKey u
      in
      case getCachedContent env w cacheKey of
        (Inl e, w1) \<Rightarrow> (Inl e, w1)
      | (Inr (Some cachedResult), w1) \<Rightarrow>
          gather_loop envs (Suc i) w1 urls (results @ [cachedResult])
      | (Inr None, w1) \<Rightarrow>
          (case gather_scrape env w1 u cacheKey of
             (Inr scrapingResult, w2) \<Rightarrow>
               gather_loop envs (Suc i) w2 urls (results @ [scrapingResult])
           | (Inl e, w2) \<Rightarrow>
               gather_loop envs (Suc i) (logError (js ''Error scraping URL: '' @ u) e w2)
                 urls results))"

definition gatherInformation ::
  "(nat \<Rightarrow> env) \<Rightarrow> world \<Rightarrow> jsstring \<Rightarrow> jsstring \<Rightarrow> jsstring list \<Rightarrow>
   (exn + ScrapingResult list) \<times> world" where
  "gatherInformation envs w query conversationId urls =
     (if urls = [] then (Inr [], w) else gather_loop envs 0 w urls [])"

section \<open>Content Processor (contentProcessor.ts)\<close>

text \<open>\<^verbatim>\<open>.replace(/```json|```/g, '')\<close>\<close>

function strip_fences :: "jsstring \<Rightarrow> jsstring" where
  "strip_fences s =
     (if s = [] then []
      else if startsWith s (js ''```json'') then strip_fences (drop 7 s)
      else if startsWith s (js ''```'') then strip_fences (drop 3 s)
      else hd s # strip_fences (tl s))"
  by pat_completeness auto
termination
  by (relation "measure length") auto

declare strip_fences.simps [simp del]

text \<open>
  \<^verbatim>\<open>.replace(/<[^>]*>/g, '')\<close>: a \<open><\<close> with a \<open>>\<close> somewhere after it is
  removed together with everything up to the first such \<open>>\<close>.
\<close>

function strip_tags :: "jsstring \<Rightarrow> jsstring" where
  "strip_tags s =
     (if s = [] then []
      else if hd s = 0x3C \<and> 0x3E \<in> set (tl s)
        then strip_tags (tl (dropWhile (\<lambda>c. c \<noteq> 0x3E) (tl s)))
      else hd s # strip_tags (tl s))"
  by pat_completeness auto
termination
proof (relation "measure length")
  fix s :: jsstring
  assume "s \<noteq> []"
  have "length (dropWhile (\<lambda>c. c \<noteq> 0x3E) (tl s)) \<le> length (tl s)"
    by (rule length_dropWhile_le)
  then have "length (tl (dropWhile (\<lambda>c. c \<noteq> 0x3E) (tl s))) \<le> length (tl s)"
    by simp
  with \<open>s \<noteq> []\<close> show "(tl (dropWhile (\<lambda>c. c \<noteq> 0x3E) (tl s)), s) \<in> measure length"
    by (cases s) auto
qed auto

declare strip_tags.simps [simp del]

text \<open>\<^verbatim>\<open>.replace(/\s+/g, ' ')\<close>\<close>

function collapse_ws :: "jsstring \<Rightarrow> jsstring" where
  "collapse_ws s =
     (if s = [] then []
      else if is_ws (hd s) then 32 # collapse_ws (dropWhile is_ws (tl s))
      else hd s # collapse_ws (tl s))"
  by pat_completeness auto
termination
proof (relation "measure length")
  fix s :: jsstring
  assume "s \<noteq> []"
  have "length (dropWhile is_ws (tl s)) \<le> length (tl s)"
    by (rule length_dropWhile_le)
  with \<open>s \<noteq> []\<close> show "(dropWhile is_ws (tl s), s) \<in> measure length"
    by (cases s) auto
qed auto

declare collapse_ws.simps [simp del]

text \<open>
  \<^verbatim>\<open>.replace(/([!?,.]){2,}/g, '$1')\<close>: a run of two or more of these characters
  becomes its last character, the last value of the group.
\<close>

definition is_punct :: "uchar \<Rightarrow> bool" where
  "is_punct c \<longleftrightarrow> c = 0x21 \<or> c = 0x3F \<or> c = 0x2C \<or> c = 0x2E"

function collapse_punct :: "jsstring \<Rightarrow> jsstring" where
  "collapse_punct s =
     (if s = [] then []
      else if is_punct (hd s) \<and> tl s \<noteq> [] \<and> is_punct (hd (tl s))
        then last (takeWhile is_punct s) # collapse_punct (dropWhile is_punct (tl s))
      else hd s # collapse_punct (tl s))"
  by pat_completeness auto
termination
proof (relation "measure length")
  fix s :: jsstring
  assume "s \<noteq> []"
  have "length (dropWhile is_punct (tl s)) \<le> length (tl s)"
    by (rule length_dropWhile_le)
  with \<open>s \<noteq> []\<close> show "(dropWhile is_punct (tl s), s) \<in> measure length"
    by (cases s) auto
qed auto

declare collapse_punct.simps [simp del]

text \<open>\<^verbatim>\<open>.replace(/['\<dots>]/g, '"')\<close> with the apostrophe and the two curly double quotes\<close>

definition normalize_quotes :: "jsstring \<Rightarrow> jsstring" where
  "normalize_quotes s = map (\<lambda>c. if c = 0x27 \<or> c = 0x201C \<or> c = 0x201D then 0x22 else c) s"

text \<open>\<^verbatim>\<open>.replace(/[\x00-\x1F\x7F-\x9F]/g, '')\<close>\<close>

definition strip_control :: "jsstring \<Rightarrow> jsstring" where
  "strip_control s = filter (\<lambda>c. \<not> (c \<le> 0x1F \<or> (0x7F \<le> c \<and> c \<le> 0x9F))) s"

definition sanitizeContent :: "jsstring \<Rightarrow> jsstring" where
  "sanitizeContent c =
     trim (strip_control (normalize_quotes (collapse_punct (collapse_ws (strip_tags (strip_fences c))))))"

text \<open>\<^verbatim>\<open>array.join(sep)\<close>\<close>

fun join :: "jsstring \<Rightarrow> jsstring list \<Rightarrow> jsstring" where
  "join sep [] = []"
| "join sep [x] = x"
| "join sep (x # y # ys) = x @ sep @ join sep (y # ys)"

text \<open>
  \<^verbatim>\<open>ProcessedContent\<close>; its field \<^verbatim>\<open>content\<close> is \<open>processed\<close> here, the name
  \<open>content\<close> being the field of the scraping result.
\<close>

record ProcessedContent =
  processed :: jsstring
  wasFiltered :: bool
  filterReason :: "jsstring option"

definition truncation_suffix :: jsstring where
  "truncation_suffix = js ''... (content truncated for length)''"

definition attributed :: "ScrapingResult \<Rightarrow> jsstring" where
  "attributed result =
     (let source = (if url result \<noteq> [] then js ''Source: '' @ url result @ [10] else [])
      in source @ content result)"

definition processContentForAI :: "ScrapingResult list \<Rightarrow> ProcessedContent" where
  "processContentForAI scrapingResults =
     (let combinedContent = join ([10, 10] @ js ''---'' @ [10, 10]) (map attributed scrapingResults);
          combinedContent = sanitizeContent combinedContent;
          combinedContent =
            (if length combinedContent > 30000
             then take 30000 combinedContent @ truncation_suffix
             else combinedContent)
      in \<lparr>processed = combinedContent, wasFiltered = False, filterReason = None\<rparr>)"

section \<open>Observations on a run\<close>

text \<open>The effects that write to the store, and those that fetch or render.\<close>

fun is_cache_write :: "effect \<Rightarrow> bool" where
  "is_cache_write (RedisSet key) = True"
| "is_cache_write (RedisLPush key) = True"
| "is_cache_write (RedisLTrim key) = True"
| "is_cache_write e = False"

fun is_fetch_or_render :: "effect \<Rightarrow> bool" where
  "is_fetch_or_render (NetworkFetch u) = True"
| "is_fetch_or_render BrowserLaunch = True"
| "is_fetch_or_render (PageRender b u) = True"
| "is_fetch_or_render e = False"

text \<open>
  The invariant of a scraping result: it is a success exactly when its content is not
  empty and passes the Quality Gate, and a failure has no content.
\<close>

definition result_ok :: "ScrapingResult \<Rightarrow> bool" where
  "result_ok r \<longleftrightarrow>
     (success r \<longleftrightarrow> content r \<noteq> [] \<and> isContentMeaningful (content r)) \<and>
     (\<not> success r \<longrightarrow> content r = [])"

text \<open>
  The store holds only what the Cache Layer can read back as such a result: a parsed
  value is one, and a text parses to one or does not parse.
\<close>

definition cached_ok :: "env \<Rightarrow> redis_data \<Rightarrow> bool" where
  "cached_ok env d =
     (case d of
        RObject r \<Rightarrow> result_ok r
      | RString s \<Rightarrow> (case JSON_parse env s of Inr r \<Rightarrow> result_ok r | Inl e \<Rightarrow> True))"

definition cache_sound :: "env \<Rightarrow> world \<Rightarrow> bool" where
  "cache_sound env w \<longleftrightarrow> (\<forall>key d. redis_store w key = Some d \<longrightarrow> cached_ok env d)"

text \<open>
  The serialiser and the parser of the outside agree on such results: the text of one
  parses to one, or does not parse.
\<close>

definition serialises_ok :: "env \<Rightarrow> bool" where
  "serialises_ok env \<longleftrightarrow>
     (\<forall>y. result_ok y \<longrightarrow> cached_ok env (RString (JSON_stringify env y)))"

text \<open>A failure result that carries the text of an exception.\<close>

definition failure_of :: "exn \<Rightarrow> ScrapingResult \<Rightarrow> bool" where
  "failure_of e r \<longleftrightarrow> success r = False \<and> error r = Some (exn_text e) \<and> content r = []"

section \<open>A concrete run\<close>

text \<open>
  A text that passes the Quality Gate (a hundred times the sentence \<open>word.\<close>), an
  outside in which nothing fails, and the world at process start: empty store, empty
  pool. The outside serves a page whose static extraction is that text; its
  serialiser writes the content between braces, its parser reads the one text that
  holds the result of scraping that page, and its digest is constant.
\<close>

definition sample_text :: jsstring where
  "sample_text = concat (replicate 100 (js ''word. ''))"

definition sample_url :: jsstring where
  "sample_url = js ''http://a''"

definition cached0 :: ScrapingResult where
  "cached0 =
     \<lparr>content = sample_text, title = title_of sample_text, success = True, error = None,
      url = sample_url, timestamp = js ''2025-01-01T00:00:00.000Z'',
      scrapeMethod = Some (js ''cheerio''),
      metrics = Some \<lparr>startTime = 0, cheerioAttemptTime = Some 1,
                          puppeteerAttemptTime = None, totalTime = 2,
                          metrics_success = True, metrics_method = Cheerio\<rparr>,
      contentStats = Some (stats_of sample_text)\<rparr>"

definition env0 :: env where
  "env0 =
     \<lparr>redis_get_error = (\<lambda>key. None),
      redis_set_error = (\<lambda>key. None),
      redis_lpush_error = (\<lambda>key. None),
      redis_ltrim_error = (\<lambda>key. None),
      JSON_parse = (\<lambda>s. if s = js ''{'' @ sample_text @ js ''}'' then Inr cached0
                         else Inl (Error (js ''Unexpected token''))),
      JSON_stringify = (\<lambda>r. js ''{'' @ content r @ js ''}''),
      JSON_stringify_entry = (\<lambda>e. js ''{'' @ userMessage e @ js '','' @ aiResponse e @ js ''}''),
      sha256_hex = (\<lambda>s. replicate 64 0x30),
      fetch_text = (\<lambda>u. Inr (js ''<article></article>'')),
      scrapeWithCheerio = (\<lambda>html. Inr sample_text),
      page_extract = (\<lambda>b u. Inr []),
      pages_fails = (\<lambda>b. False),
      close_error = (\<lambda>b. None),
      puppeteer_launch = Inr 7,
      performance_now = (\<lambda>k. of_nat k),
      Date_now = 1000,
      Date_toISOString = js ''2025-01-01T00:00:00.000Z''\<rparr>"

definition world0 :: world where
  "world0 =
     \<lparr>redis_store = Map.empty, redis_lists = (\<lambda>key. []), browsers = [], console = [],
      trace = []\<rparr>"

text \<open>The world in which that result is already in the store, parsed.\<close>

definition world_hit :: world where
  "world_hit = world0\<lparr>redis_store := [scrapeCacheKey env0 sample_url \<mapsto> RObject cached0]\<rparr>"

text \<open>The world after the first scrape of the page from process start.\<close>

definition world1 :: world where
  "world1 =
     world0\<lparr>redis_store :=
               [scrapeCacheKey env0 sample_url \<mapsto> RString (js ''{'' @ sample_text @ js ''}'')],
            trace := [RedisGet (scrapeCacheKey env0 sample_url), NetworkFetch sample_url,
                      RedisSet (scrapeCacheKey env0 sample_url)]\<rparr>"

text \<open>Outsides in which something fails, or in which no extraction is good enough.\<close>

definition env_offline :: env where
  "env_offline = env0\<lparr>fetch_text := (\<lambda>u. Inl (Error (js ''fetch failed'')))\<rparr>"

definition env_bad_markup :: env where
  "env_bad_markup = env0\<lparr>scrapeWithCheerio := (\<lambda>html. Inl (Thrown (js ''boom'')))\<rparr>"

definition env_no_browser :: env where
  "env_no_browser =
     env0\<lparr>scrapeWithCheerio := (\<lambda>html. Inr []),
          puppeteer_launch := Inl (Error (js ''no chrome''))\<rparr>"

definition env_redis_down :: env where
  "env_redis_down =
     env0\<lparr>redis_get_error := (\<lambda>key. Some (Error (js ''ECONNREFUSED''))),
          redis_set_error := (\<lambda>key. Some (Error (js ''ECONNREFUSED''))),
          redis_lpush_error := (\<lambda>key. Some (Error (js ''ECONNREFUSED'')))\<rparr>"

definition env_trim_down :: env where
  "env_trim_down = env0\<lparr>redis_ltrim_error := (\<lambda>key. Some (Thrown (js ''timeout'')))\<rparr>"

definition env_thin :: env where
  "env_thin = env0\<lparr>scrapeWithCheerio := (\<lambda>html. Inr [])\<rparr>"

text \<open>A pool at its cap, and an outside in which session 2 fails its health check.\<close>

definition world_full :: world where
  "world_full = world0\<lparr>browsers := [(1, 10), (2, 5), (3, 7)]\<rparr>"

definition env_sick :: env where
  "env_sick = env0\<lparr>pages_fails := (\<lambda>b. b = 2)\<rparr>"

text \<open>
  Five calls of \<^verbatim>\<open>getBrowser\<close> that start together on the empty pool, as five
  requests arriving at once make them: each starts before the launch of any other
  has resolved, then the five launches resolve with the sessions 1 to 5.
\<close>

definition launching :: "browser \<Rightarrow> env" where
  "launching b = env0\<lparr>puppeteer_launch := Inr b\<rparr>"

definition five_overlapping :: "pool_event list" where
  "five_overlapping =
     [Enter env0, Enter env0, Enter env0, Enter env0, Enter env0,
      LaunchDone (launching 1), LaunchDone (launching 2), LaunchDone (launching 3),
      LaunchDone (launching 4), LaunchDone (launching 5)]"

section \<open>Splitting, and a text that passes the gate\<close>

lemma split_runs_nonempty: "split_runs P xs \<noteq> []"
proof (induction xs)
  case Nil
  show ?case by simp
next
  case (Cons x xs)
  then show ?case by (cases "split_runs P xs") (auto split: list.splits)
qed

lemma length_prepend: "ws \<noteq> [] \<Longrightarrow> length (prepend x ws) = length ws"
  by (cases ws) auto

lemma split_runs_skip:
  "\<forall>c \<in> set w. \<not> P c \<Longrightarrow> length (split_runs P (w @ r)) = length (split_runs P r)"
  by (induction w) (auto simp: length_prepend split_runs_nonempty)

lemma split_runs_sep:
  "P s \<Longrightarrow> r = [] \<or> \<not> P (hd r) \<Longrightarrow>
   length (split_runs P (s # r)) = Suc (length (split_runs P r))"
  by (cases r) auto

text \<open>\<open>n\<close> copies of a block with one separator inside give \<open>n + 1\<close> pieces.\<close>

lemma split_runs_unit:
  assumes "\<forall>c \<in> set a. \<not> P c" "P s" "\<forall>c \<in> set b. \<not> P c" "a \<noteq> []"
  shows "length (split_runs P (concat (replicate n (a @ s # b)))) = Suc n"
proof (induction n)
  case 0
  show ?case by simp
next
  case (Suc n)
  let ?rest = "concat (replicate n (a @ s # b))"
  have hd_ok: "b @ ?rest = [] \<or> \<not> P (hd (b @ ?rest))"
  proof (cases b)
    case (Cons y ys)
    with assms(3) show ?thesis by simp
  next
    case Nil
    show ?thesis
    proof (cases n)
      case 0
      with Nil show ?thesis by simp
    next
      case (Suc m)
      from assms(1,4) have "\<not> P (hd a)" by (cases a) auto
      with Nil Suc assms(4) show ?thesis by simp
    qed
  qed
  have "length (split_runs P (concat (replicate (Suc n) (a @ s # b)))) =
        length (split_runs P (a @ (s # (b @ ?rest))))"
    by simp
  also have "\<dots> = length (split_runs P (s # (b @ ?rest)))"
    using assms(1) by (rule split_runs_skip)
  also have "\<dots> = Suc (length (split_runs P (b @ ?rest)))"
    using assms(2) hd_ok by (rule split_runs_sep)
  also have "\<dots> = Suc (length (split_runs P ?rest))"
    using assms(3) by (simp add: split_runs_skip)
  finally show ?case using Suc.IH by simp
qed

lemma includes_str_set: "includes_str s p \<Longrightarrow> set p \<subseteq> set s"
proof (induction s)
  case Nil
  then show ?case by simp
next
  case (Cons x xs)
  show ?case
  proof (cases "startsWith (x # xs) p")
    case True
    then have "p = take (length p) (x # xs)" by (simp add: startsWith_def)
    then have "set p \<subseteq> set (x # xs)" by (metis set_take_subset)
    then show ?thesis .
  next
    case False
    with Cons show ?thesis by auto
  qed
qed

lemma trim_nonempty: "\<not> is_ws (hd s) \<Longrightarrow> s \<noteq> [] \<Longrightarrow> trim s \<noteq> []"
  by (cases s) (auto simp: trim_def)

lemma set_sample_text: "set sample_text \<subseteq> set (js ''word. '')"
  by (auto simp: sample_text_def)

lemma length_sample_text: "length sample_text = 600"
  by (simp add: sample_text_def length_concat js_def sum_list_replicate)

lemma sample_text_words: "length (split_runs is_ws sample_text) = 101"
proof -
  have "length (split_runs is_ws (concat (replicate 100 (js ''word.'' @ 32 # [])))) = Suc 100"
    by (rule split_runs_unit) (simp_all add: js_def is_ws_def)
  moreover have "js ''word. '' = js ''word.'' @ 32 # []"
    by (simp add: js_def)
  ultimately show ?thesis
    unfolding sample_text_def by simp
qed

lemma sample_text_sentences: "length (split_runs is_sentence_end sample_text) = 101"
proof -
  have "length (split_runs is_sentence_end (concat (replicate 100 (js ''word'' @ 0x2E # [32])))) = Suc 100"
    by (rule split_runs_unit) (simp_all add: js_def is_sentence_end_def)
  moreover have "js ''word. '' = js ''word'' @ 0x2E # [32]"
    by (simp add: js_def)
  ultimately show ?thesis
    unfolding sample_text_def by simp
qed

lemma sample_text_not_blocked:
  "\<not> list_ex (\<lambda>phrase. includes_str sample_text phrase) blockedPhrases"
proof -
  have "\<not> includes_str sample_text p" if "\<exists>c \<in> set p. c \<notin> set (js ''word. '')" for p
    using that includes_str_set [of sample_text p] set_sample_text by blast
  then show ?thesis
    by (simp add: blockedPhrases_def js_def)
qed

lemma sample_text_unfold: "sample_text = js ''word. '' @ concat (replicate 99 (js ''word. ''))"
proof -
  have "replicate 100 (js ''word. '') = js ''word. '' # replicate 99 (js ''word. '')"
    by (simp add: numeral_eq_Suc)
  then show ?thesis by (simp add: sample_text_def)
qed

lemma sample_text_nonempty: "sample_text \<noteq> []"
  by (simp add: sample_text_unfold js_def)

lemma sample_text_meaningful: "isContentMeaningful sample_text"
proof -
  have hd: "\<not> is_ws (hd sample_text)"
    by (simp add: sample_text_unfold js_def is_ws_def)
  from trim_nonempty [OF hd sample_text_nonempty] have "length (trim sample_text) \<noteq> 0" by simp
  with sample_text_nonempty show ?thesis
    using sample_text_not_blocked
    by (simp add: isContentMeaningful_def Let_def sample_text_words sample_text_sentences
        length_sample_text split_runs_nonempty MIN_CONTENT_LENGTH_def MIN_SENTENCES_def
        MIN_WORD_LENGTH_def)
qed

lemma empty_not_meaningful: "\<not> isContentMeaningful []"
  by (simp add: isContentMeaningful_def)

section \<open>The Quality Gate rejects short texts\<close>

text \<open>
  C5. A text whose sentence count, the number of pieces of the split on runs of
  \<open>.\<close>, \<open>!\<close> and \<open>?\<close>, is below 3 is rejected by the Quality Gate, whatever
  else it contains.
\<close>

theorem gate_rejects_few_sentences:
  "length (split_runs is_sentence_end txt) < 3 \<Longrightarrow> \<not> isContentMeaningful txt"
  by (simp add: isContentMeaningful_def Let_def MIN_SENTENCES_def)

theorem gate_rejects_few_sentences_witness:
  "length (split_runs is_sentence_end (js ''Hello world.'')) < 3 \<and>
   \<not> isContentMeaningful (js ''Hello world.'')"
  using gate_rejects_few_sentences [of "js ''Hello world.''"]
  by (simp add: js_def is_sentence_end_def)

section \<open>The Content Processor bounds its output\<close>

text \<open>
  C8. Whatever the list of scraping results and however long their contents, the
  content returned by \<^verbatim>\<open>processContentForAI\<close> has at most 30000 characters plus
  the length of the truncation suffix \<open>... (content truncated for length)\<close>, which
  has 34 characters.
\<close>

theorem processContentForAI_bounded:
  "length (processed (processContentForAI scrapingResults)) \<le> 30000 + length truncation_suffix
   \<and> length truncation_suffix = 34"
  by (simp add: processContentForAI_def Let_def truncation_suffix_def js_def)


section \<open>A call of getBrowser that runs alone\<close>

text \<open>The two parts one after the other, and the \<^verbatim>\<open>catch\<close>, as one step.\<close>

lemma getBrowser_try_alone:
  "getBrowser_try env w =
     (let w1 = checkBrowserHealth env w in
      if length (browsers w1) < maxBrowsers then
        (case puppeteer_launch env of
           Inl e \<Rightarrow> (Inl e, effect BrowserLaunch w1)
         | Inr b \<Rightarrow>
             (Inr b, effect BrowserLaunch (w1\<lparr>browsers := browsers w1 @ [(b, Date_now env)]\<rparr>)))
      else if browsers w1 = [] then
        (Inl (Error (js ''Reduce of empty array with no initial value'')), w1)
      else
        let i = leastRecentlyUsed (browsers w1);
            b = fst (browsers w1 ! i)
        in (Inr b, w1\<lparr>browsers := (browsers w1)[i := (b, Date_now env)]\<rparr>))"
  by (simp add: getBrowser_try_def getBrowser_begin_def getBrowser_resume_def Let_def effect_def
      split: sum.splits)

lemma getBrowser_alone_eq:
  "getBrowser env w =
     (case getBrowser_try env w of
        (Inr b, w1) \<Rightarrow> (Inr b, w1)
      | (Inl e, w1) \<Rightarrow>
          (Inl (Error (js ''Failed to launch browser: '' @ exn_message e)),
           logError (js ''Browser launch failed:'') e w1))"
  by (simp add: getBrowser_def getBrowser_catch_def)

section \<open>What the Cache Layer and the pool leave untouched\<close>

lemmas cache_defs = getCachedContent_def getCachedContent_try_def redis_get_def
  setCachedContent_def setCachedContent_try_def redis_set_def effect_def logError_def

lemma getCachedContent_returns: "\<exists>v. fst (getCachedContent env w key) = Inr v"
  by (auto simp: cache_defs split: option.splits redis_data.splits sum.splits prod.splits)

lemma getCachedContent_frame:
  "getCachedContent env w key = (r, w') \<Longrightarrow>
     redis_store w' = redis_store w \<and> redis_lists w' = redis_lists w \<and>
     browsers w' = browsers w \<and> trace w' = trace w @ [RedisGet key]"
  by (auto simp: cache_defs split: option.splits redis_data.splits sum.splits prod.splits if_splits)

lemma setCachedContent_returns: "fst (setCachedContent env w key v) = Inr ()"
  by (auto simp: cache_defs Let_def split: option.splits sum.splits prod.splits)

lemma evict_frame:
  "redis_store (evict env i w) = redis_store w \<and> redis_lists (evict env i w) = redis_lists w \<and>
   trace (evict env i w) = trace w"
  by (simp add: evict_def Let_def logError_def split: option.splits)

lemma fold_evict_frame:
  "redis_store (fold (evict env) is w) = redis_store w \<and>
   redis_lists (fold (evict env) is w) = redis_lists w \<and>
   trace (fold (evict env) is w) = trace w"
  by (induction "is" arbitrary: w) (simp_all add: evict_frame)

lemma checkBrowserHealth_frame:
  "redis_store (checkBrowserHealth env w) = redis_store w \<and>
   redis_lists (checkBrowserHealth env w) = redis_lists w \<and>
   trace (checkBrowserHealth env w) = trace w"
  by (simp add: checkBrowserHealth_def fold_evict_frame)

lemma getBrowser_frame:
  assumes "getBrowser env w = (r, w')"
  shows "redis_store w' = redis_store w \<and> redis_lists w' = redis_lists w \<and>
     filter is_cache_write (trace w') = filter is_cache_write (trace w)"
  using assms checkBrowserHealth_frame [of env w]
  by (auto simp: getBrowser_alone_eq getBrowser_try_alone Let_def effect_def logError_def
      split: sum.splits prod.splits if_splits)

lemma scrapeWithPuppeteer_frame:
  assumes "scrapeWithPuppeteer env w u = (r, w')"
  shows "redis_store w' = redis_store w \<and> redis_lists w' = redis_lists w \<and>
     filter is_cache_write (trace w') = filter is_cache_write (trace w)"
  using assms
  by (auto simp: scrapeWithPuppeteer_def effect_def dest: getBrowser_frame split: sum.splits prod.splits)

section \<open>A cache hit\<close>

lemma sample_url_valid: "sample_url \<noteq> [] \<and> startsWith sample_url (js ''http'')"
  by (simp add: sample_url_def startsWith_def js_def)

text \<open>
  C10. On a cache hit (a valid URL whose key the Cache Layer reads back as a payload),
  \<^verbatim>\<open>scrapeWebContent\<close> returns the cached payload with its \<open>metrics\<close> field
  replaced by the metrics of this call, whose method is \<open>cache\<close>; the fields
  \<open>scrapeMethod\<close>, \<open>content\<close>, \<open>title\<close>, \<open>success\<close>, \<open>error\<close>,
  \<open>url\<close>, \<open>timestamp\<close> and \<open>contentStats\<close> are those of the payload.
\<close>

theorem cache_hit_replaces_metrics_only:
  assumes "u \<noteq> []" and "startsWith u (js ''http'')"
    and "getCachedContent env w (scrapeCacheKey env u) = (Inr (Some cached), w1)"
  shows "let m = \<lparr>startTime = performance_now env 0, cheerioAttemptTime = None,
                   puppeteerAttemptTime = None,
                   totalTime = performance_now env 1 - performance_now env 0,
                   metrics_success = False, metrics_method = Cache\<rparr>;
             r = cached\<lparr>metrics := Some m\<rparr>
         in scrapeWebContent env w u = (Inr r, w1) \<and>
            metrics_method m = Cache \<and>
            scrapeMethod r = scrapeMethod cached \<and>
            content r = content cached \<and>
            title r = title cached \<and>
            success r = success cached \<and>
            error r = error cached \<and>
            url r = url cached \<and>
            timestamp r = timestamp cached \<and>
            contentStats r = contentStats cached"
  using assms by (simp add: scrapeWebContent_def scrapeWebContent_try_def Let_def)

theorem cache_hit_replaces_metrics_only_witness:
  "sample_url \<noteq> [] \<and> startsWith sample_url (js ''http'') \<and>
   getCachedContent env0 world_hit (scrapeCacheKey env0 sample_url) =
     (Inr (Some cached0), effect (RedisGet (scrapeCacheKey env0 sample_url)) world_hit) \<and>
   scrapeMethod cached0 = Some (js ''cheerio'') \<and>
   fst (scrapeWebContent env0 world_hit sample_url) =
     Inr (cached0\<lparr>metrics := Some \<lparr>startTime = 0, cheerioAttemptTime = None,
                                      puppeteerAttemptTime = None, totalTime = 1,
                                      metrics_success = False, metrics_method = Cache\<rparr>\<rparr>)"
proof -
  have hit: "getCachedContent env0 world_hit (scrapeCacheKey env0 sample_url) =
     (Inr (Some cached0), effect (RedisGet (scrapeCacheKey env0 sample_url)) world_hit)"
    by (simp add: getCachedContent_def getCachedContent_try_def redis_get_def env0_def
        world_hit_def effect_def)
  have how: "scrapeMethod cached0 = Some (js ''cheerio'')"
    by (simp add: cached0_def)
  have now: "performance_now env0 0 = 0" "performance_now env0 (Suc 0) = 1"
    by (simp_all add: env0_def)
  from cache_hit_replaces_metrics_only [OF sample_url_valid [THEN conjunct1]
      sample_url_valid [THEN conjunct2] hit]
  show ?thesis
    using sample_url_valid hit how by (simp add: Let_def now)
qed

section \<open>Both strategies rejected\<close>

text \<open>
  C6. For a valid URL that misses the cache, when the static extraction and the
  dynamic extraction both return a content that the Quality Gate rejects,
  \<^verbatim>\<open>scrapeWebContent\<close> returns a result with \<open>success = false\<close>, the error
  \<open>Content validation failed\<close> and no content, and writes nothing: the store
  and its lists are as before and the run has made no write to the store.
\<close>

theorem both_strategies_rejected:
  assumes "u \<noteq> []" and "startsWith u (js ''http'')"
    and "getCachedContent env w (scrapeCacheKey env u) = (Inr None, w1)"
    and "fetch_text env u = Inr html"
    and "scrapeWithCheerio env html = Inr c" and "\<not> isContentMeaningful c"
    and "scrapeWithPuppeteer env (effect (NetworkFetch u) w1) u = (Inr d, w3)"
    and "\<not> isContentMeaningful d"
  shows "\<exists>r. scrapeWebContent env w u = (Inr r, w3) \<and>
           success r = False \<and> error r = Some (js ''Content validation failed'') \<and>
           content r = [] \<and>
           redis_store w3 = redis_store w \<and> redis_lists w3 = redis_lists w \<and>
           filter is_cache_write (trace w3) = filter is_cache_write (trace w)"
proof -
  from assms(3) have f1: "redis_store w1 = redis_store w" "redis_lists w1 = redis_lists w"
      "trace w1 = trace w @ [RedisGet (scrapeCacheKey env u)]"
    by (simp_all add: getCachedContent_frame)
  from scrapeWithPuppeteer_frame [OF assms(7)]
  have f3: "redis_store w3 = redis_store w" "redis_lists w3 = redis_lists w"
      "filter is_cache_write (trace w3) = filter is_cache_write (trace w)"
    using f1 by (simp_all add: effect_def)
  show ?thesis
    using assms f3
    by (simp add: scrapeWebContent_def scrapeWebContent_try_def Let_def scrape_failure_def)
qed


theorem both_strategies_rejected_witness:
  "sample_url \<noteq> [] \<and> startsWith sample_url (js ''http'') \<and>
   fst (getCachedContent env_thin world0 (scrapeCacheKey env_thin sample_url)) = Inr None \<and>
   fetch_text env_thin sample_url = Inr (js ''<article></article>'') \<and>
   scrapeWithCheerio env_thin (js ''<article></article>'') = Inr [] \<and>
   \<not> isContentMeaningful [] \<and>
   (case fst (scrapeWebContent env_thin world0 sample_url) of
      Inr r \<Rightarrow> success r = False \<and> error r = Some (js ''Content validation failed'') \<and>
               content r = []
    | Inl e \<Rightarrow> False) \<and>
   redis_store (snd (scrapeWebContent env_thin world0 sample_url)) = redis_store world0"
proof -
  let ?key = "scrapeCacheKey env_thin sample_url"
  let ?w1 = "effect (RedisGet ?key) world0"
  let ?w3 = "snd (scrapeWithPuppeteer env_thin (effect (NetworkFetch sample_url) ?w1) sample_url)"
  have miss: "getCachedContent env_thin world0 ?key = (Inr None, ?w1)"
    by (simp add: getCachedContent_def getCachedContent_try_def redis_get_def env_thin_def
        env0_def world0_def effect_def)
  have fetch: "fetch_text env_thin sample_url = Inr (js ''<article></article>'')"
    and static: "scrapeWithCheerio env_thin (js ''<article></article>'') = Inr []"
    by (simp_all add: env_thin_def env0_def)
  have "fst (scrapeWithPuppeteer env_thin (effect (NetworkFetch sample_url) ?w1) sample_url) = Inr []"
    by (simp add: scrapeWithPuppeteer_def getBrowser_alone_eq getBrowser_try_alone checkBrowserHealth_def
        unhealthyBrowsers_def maxBrowsers_def MAX_WORKERS_def env_thin_def env0_def world0_def
        effect_def Let_def)
  then have dynamic:
    "scrapeWithPuppeteer env_thin (effect (NetworkFetch sample_url) ?w1) sample_url = (Inr [], ?w3)"
    by (simp add: prod_eq_iff)
  from both_strategies_rejected [OF sample_url_valid [THEN conjunct1]
      sample_url_valid [THEN conjunct2] miss fetch static empty_not_meaningful dynamic
      empty_not_meaningful]
  obtain r where "scrapeWebContent env_thin world0 sample_url = (Inr r, ?w3)"
    "success r = False" "error r = Some (js ''Content validation failed'')" "content r = []"
    "redis_store ?w3 = redis_store world0"
    by blast
  then show ?thesis
    using sample_url_valid miss fetch static empty_not_meaningful by simp
qed

section \<open>Failures of the store\<close>

text \<open>
  C7, as stated, fails for the chat history: with a store whose \<^verbatim>\<open>lpush\<close>
  rejects, \<^verbatim>\<open>storeChat\<close> does not return normally, it throws the error
  \<open>Failed to store chat history\<close>.
\<close>

theorem storeChat_rethrows:
  "fst (storeChat env_redis_down world0 (js ''c1'') (js ''hi'') (js ''hello'')) =
     Inl (Error (js ''Failed to store chat history''))"
  by (simp add: storeChat_def storeChat_try_def redis_lpush_def env_redis_down_def env0_def Let_def)

text \<open>
  C7, amended. \<^verbatim>\<open>setCachedContent\<close> returns normally for every key and value;
  when the value is null, and when \<^verbatim>\<open>redis.set\<close> rejects, it writes the error to
  the console under \<open>setCachedContent\<close> and changes nothing else. \<^verbatim>\<open>storeChat\<close>
  does not swallow: when \<^verbatim>\<open>lpush\<close> rejects, or \<^verbatim>\<open>lpush\<close> succeeds and
  \<^verbatim>\<open>ltrim\<close> rejects, it writes that error to the console under \<open>storeChat\<close>
  and throws the error \<open>Failed to store chat history\<close> to its caller. It returns
  normally exactly when both succeed, and then writes nothing to the console and
  leaves the new entry in front of the list, cut to 50 entries.
\<close>

theorem cache_write_failures:
  "fst (setCachedContent env w key v) = Inr () \<and>
   (v = None \<longrightarrow>
      snd (setCachedContent env w key v) =
        logError (js ''setCachedContent'')
          (Error (js ''Cannot cache null or undefined content'')) w) \<and>
   (v = Some r \<and> redis_set_error env key = Some e \<longrightarrow>
      snd (setCachedContent env w key v) =
        logError (js ''setCachedContent'') e (effect (RedisSet key) w)) \<and>
   (let k = CHAT_HISTORY_PREFIX @ conversationId;
        entry = JSON_stringify_entry env
                  \<lparr>userMessage = userMessage', aiResponse = aiResponse',
                   entry_timestamp = Date_toISOString env\<rparr>;
        pushed = effect (RedisLPush k) (w\<lparr>redis_lists := (redis_lists w)(k := entry # redis_lists w k)\<rparr>);
        call = storeChat env w conversationId userMessage' aiResponse'
    in (redis_lpush_error env k = Some e1 \<longrightarrow>
          call = (Inl (Error (js ''Failed to store chat history'')),
                  logError (js ''storeChat'') e1 (effect (RedisLPush k) w))) \<and>
       (redis_lpush_error env k = None \<and> redis_ltrim_error env k = Some e2 \<longrightarrow>
          call = (Inl (Error (js ''Failed to store chat history'')),
                  logError (js ''storeChat'') e2 (effect (RedisLTrim k) pushed))) \<and>
       (redis_lpush_error env k = None \<and> redis_ltrim_error env k = None \<longrightarrow>
          fst call = Inr () \<and> console (snd call) = console w \<and>
          redis_lists (snd call) k = take 50 (entry # redis_lists w k)) \<and>
       (fst call = Inr () \<longleftrightarrow>
          redis_lpush_error env k = None \<and> redis_ltrim_error env k = None))"
proof -
  have set_ok: "fst (setCachedContent env w key v) = Inr ()"
    by (rule setCachedContent_returns)
  have set_null: "v = None \<longrightarrow>
      snd (setCachedContent env w key v) =
        logError (js ''setCachedContent'')
          (Error (js ''Cannot cache null or undefined content'')) w"
    by (simp add: setCachedContent_def setCachedContent_try_def)
  have set_down: "v = Some r \<and> redis_set_error env key = Some e \<longrightarrow>
      snd (setCachedContent env w key v) =
        logError (js ''setCachedContent'') e (effect (RedisSet key) w)"
    by (simp add: setCachedContent_def setCachedContent_try_def redis_set_def Let_def)
  have chat: "let k = CHAT_HISTORY_PREFIX @ conversationId;
        entry = JSON_stringify_entry env
                  \<lparr>userMessage = userMessage', aiResponse = aiResponse',
                   entry_timestamp = Date_toISOString env\<rparr>;
        pushed = effect (RedisLPush k) (w\<lparr>redis_lists := (redis_lists w)(k := entry # redis_lists w k)\<rparr>);
        call = storeChat env w conversationId userMessage' aiResponse'
    in (redis_lpush_error env k = Some e1 \<longrightarrow>
          call = (Inl (Error (js ''Failed to store chat history'')),
                  logError (js ''storeChat'') e1 (effect (RedisLPush k) w))) \<and>
       (redis_lpush_error env k = None \<and> redis_ltrim_error env k = Some e2 \<longrightarrow>
          call = (Inl (Error (js ''Failed to store chat history'')),
                  logError (js ''storeChat'') e2 (effect (RedisLTrim k) pushed))) \<and>
       (redis_lpush_error env k = None \<and> redis_ltrim_error env k = None \<longrightarrow>
          fst call = Inr () \<and> console (snd call) = console w \<and>
          redis_lists (snd call) k = take 50 (entry # redis_lists w k)) \<and>
       (fst call = Inr () \<longleftrightarrow>
          redis_lpush_error env k = None \<and> redis_ltrim_error env k = None)"
    by (cases "redis_lpush_error env (CHAT_HISTORY_PREFIX @ conversationId)";
        cases "redis_ltrim_error env (CHAT_HISTORY_PREFIX @ conversationId)")
       (simp_all add: storeChat_def storeChat_try_def redis_lpush_def redis_ltrim0_def Let_def
          effect_def logError_def)
  from set_ok set_null set_down chat show ?thesis
    by (intro conjI)
qed

theorem cache_write_failures_witness:
  "redis_set_error env_redis_down (js ''k'') = Some (Error (js ''ECONNREFUSED'')) \<and>
   setCachedContent env_redis_down world0 (js ''k'') (Some cached0) =
     (Inr (), logError (js ''setCachedContent'') (Error (js ''ECONNREFUSED''))
                (effect (RedisSet (js ''k'')) world0)) \<and>
   setCachedContent env0 world0 (js ''k'') None =
     (Inr (), logError (js ''setCachedContent'')
                (Error (js ''Cannot cache null or undefined content'')) world0) \<and>
   redis_lpush_error env_redis_down (CHAT_HISTORY_PREFIX @ js ''c1'') =
     Some (Error (js ''ECONNREFUSED'')) \<and>
   storeChat env_redis_down world0 (js ''c1'') (js ''hi'') (js ''hello'') =
     (Inl (Error (js ''Failed to store chat history'')),
      logError (js ''storeChat'') (Error (js ''ECONNREFUSED''))
        (effect (RedisLPush (CHAT_HISTORY_PREFIX @ js ''c1'')) world0)) \<and>
   redis_lpush_error env_trim_down (CHAT_HISTORY_PREFIX @ js ''c1'') = None \<and>
   redis_ltrim_error env_trim_down (CHAT_HISTORY_PREFIX @ js ''c1'') = Some (Thrown (js ''timeout'')) \<and>
   fst (storeChat env_trim_down world0 (js ''c1'') (js ''hi'') (js ''hello'')) =
     Inl (Error (js ''Failed to store chat history'')) \<and>
   console (snd (storeChat env_trim_down world0 (js ''c1'') (js ''hi'') (js ''hello''))) =
     [(js ''storeChat'', Thrown (js ''timeout''))] \<and>
   redis_lpush_error env0 (CHAT_HISTORY_PREFIX @ js ''c1'') = None \<and>
   redis_ltrim_error env0 (CHAT_HISTORY_PREFIX @ js ''c1'') = None \<and>
   fst (storeChat env0 world0 (js ''c1'') (js ''hi'') (js ''hello'')) = Inr () \<and>
   console (snd (storeChat env0 world0 (js ''c1'') (js ''hi'') (js ''hello''))) = [] \<and>
   redis_lists (snd (storeChat env0 world0 (js ''c1'') (js ''hi'') (js ''hello'')))
     (CHAT_HISTORY_PREFIX @ js ''c1'') = [js ''{hi,hello}'']"
proof -
  let ?k = "CHAT_HISTORY_PREFIX @ js ''c1''"
  have down: "redis_set_error env_redis_down (js ''k'') = Some (Error (js ''ECONNREFUSED''))"
    "redis_lpush_error env_redis_down ?k = Some (Error (js ''ECONNREFUSED''))"
    by (simp_all add: env_redis_down_def)
  have trim: "redis_lpush_error env_trim_down ?k = None"
    "redis_ltrim_error env_trim_down ?k = Some (Thrown (js ''timeout''))"
    by (simp_all add: env_trim_down_def env0_def)
  have up: "redis_lpush_error env0 ?k = None" "redis_ltrim_error env0 ?k = None"
    by (simp_all add: env0_def)
  have start: "console world0 = []" "redis_lists world0 ?k = []"
    by (simp_all add: world0_def)
  have entry: "JSON_stringify_entry env0
                 \<lparr>userMessage = js ''hi'', aiResponse = js ''hello'',
                  entry_timestamp = Date_toISOString env0\<rparr> = js ''{hi,hello}''"
    by (simp add: env0_def js_def)
  from cache_write_failures [of env_redis_down world0 "js ''k''" "Some cached0" cached0
      "Error (js ''ECONNREFUSED'')" "js ''c1''" "js ''hi''" "js ''hello''"
      "Error (js ''ECONNREFUSED'')"] down
  have a: "setCachedContent env_redis_down world0 (js ''k'') (Some cached0) =
     (Inr (), logError (js ''setCachedContent'') (Error (js ''ECONNREFUSED''))
                (effect (RedisSet (js ''k'')) world0))"
    and b: "storeChat env_redis_down world0 (js ''c1'') (js ''hi'') (js ''hello'') =
     (Inl (Error (js ''Failed to store chat history'')),
      logError (js ''storeChat'') (Error (js ''ECONNREFUSED'')) (effect (RedisLPush ?k) world0))"
    by (simp_all add: prod_eq_iff Let_def)
  from cache_write_failures [of env0 world0 "js ''k''" None cached0 "Error []"
      "js ''c1''" "js ''hi''" "js ''hello''"] up start entry
  have c: "setCachedContent env0 world0 (js ''k'') None =
     (Inr (), logError (js ''setCachedContent'')
                (Error (js ''Cannot cache null or undefined content'')) world0)"
    and d: "fst (storeChat env0 world0 (js ''c1'') (js ''hi'') (js ''hello'')) = Inr ()"
      "console (snd (storeChat env0 world0 (js ''c1'') (js ''hi'') (js ''hello''))) = []"
      "redis_lists (snd (storeChat env0 world0 (js ''c1'') (js ''hi'') (js ''hello''))) ?k =
         [js ''{hi,hello}'']"
    by (simp_all add: prod_eq_iff Let_def)
  from cache_write_failures [of env_trim_down world0 "js ''k''" None cached0 "Error []"
      "js ''c1''" "js ''hi''" "js ''hello''" "Error []" "Thrown (js ''timeout'')"] trim start
  have e: "fst (storeChat env_trim_down world0 (js ''c1'') (js ''hi'') (js ''hello'')) =
     Inl (Error (js ''Failed to store chat history''))"
    "console (snd (storeChat env_trim_down world0 (js ''c1'') (js ''hi'') (js ''hello''))) =
     [(js ''storeChat'', Thrown (js ''timeout''))]"
    by (simp_all add: Let_def logError_def effect_def)
  show ?thesis
    using down trim up a b c d e by (intro conjI)
qed

section \<open>Cache keys\<close>

lemma js_append: "js (a @ b) = js a @ js b"
  by (simp add: js_def)

text \<open>
  C4, as stated, fails for the Information Gatherer: its key for the URL
  \<open>http://a\<close> is the prefix followed by the URL itself, 21 characters, and
  is neither a prefix followed by a 64-character digest nor a prefix, a conversation
  identifier, a colon and such a digest, whatever the digest function.
\<close>

theorem gatherer_key_not_hashed:
  "gathererCacheKey sample_url = js ''cache:scrape:http://a'' \<and>
   \<not> (\<exists>env prefix conversationId c.
        length (sha256_hex env c) = 64 \<and>
        (gathererCacheKey sample_url = prefix @ sha256_hex env c \<or>
         gathererCacheKey sample_url = prefix @ conversationId @ js '':'' @ sha256_hex env c))"
proof -
  have key: "gathererCacheKey sample_url = js ''cache:scrape:http://a''"
    by (simp add: gathererCacheKey_def SCRAPE_CACHE_PREFIX_def CACHE_PREFIX_def sample_url_def js_def)
  then have len: "length (gathererCacheKey sample_url) = 21"
    by (simp add: js_def)
  have "False" if "length (h :: jsstring) = 64"
    and "gathererCacheKey sample_url = p @ h \<or> gathererCacheKey sample_url = p @ q @ js '':'' @ h"
    for p q h
  proof -
    from that(2) have "length (gathererCacheKey sample_url) \<ge> length h"
      by (elim disjE) simp_all
    with len that(1) show False by simp
  qed
  then show ?thesis using key by blast
qed

text \<open>
  C4, amended. Every cache key is a function of its input alone: the orchestrator's key
  is \<open>scrape:\<close> followed by the digest of the URL; the key of
  \<^verbatim>\<open>createCacheKey\<close> is prefix, conversation identifier, a colon and the digest of
  the content, when none of the three is empty, and an error otherwise; the
  Information Gatherer's key is \<open>cache:scrape:\<close> followed by the URL itself, not
  hashed. The first two depend on the outside through the digest function only,
  different URLs have different gatherer keys, and no orchestrator key is a gatherer key.
\<close>

theorem cache_keys:
  "scrapeCacheKey env u = js ''scrape:'' @ sha256_hex env u \<and>
   gathererCacheKey u = js ''cache:scrape:'' @ u \<and>
   createCacheKey env c p cid =
     (if c = [] \<or> p = [] \<or> cid = []
      then Inl (Error (js ''Content, prefix, and conversationId must be provided to create a cache key.''))
      else Inr (p @ cid @ js '':'' @ sha256_hex env c)) \<and>
   (sha256_hex env' = sha256_hex env \<longrightarrow>
      scrapeCacheKey env' u = scrapeCacheKey env u \<and>
      createCacheKey env' c p cid = createCacheKey env c p cid) \<and>
   (gathererCacheKey u = gathererCacheKey u' \<longleftrightarrow> u = u') \<and>
   scrapeCacheKey env u \<noteq> gathererCacheKey u'"
  by (simp add: scrapeCacheKey_def gathererCacheKey_def createCacheKey_def
      SCRAPE_CACHE_PREFIX_def CACHE_PREFIX_def Let_def js_def)

theorem cache_keys_witness:
  "sha256_hex env_thin = sha256_hex env0 \<and>
   scrapeCacheKey env_thin sample_url = scrapeCacheKey env0 sample_url \<and>
   scrapeCacheKey env0 sample_url = js ''scrape:'' @ replicate 64 0x30 \<and>
   createCacheKey env_thin (js ''q'') AI_CACHE_PREFIX (js ''c1'') =
     Inr (js ''cache:ai:c1:'' @ replicate 64 0x30)"
proof -
  have same: "sha256_hex env_thin = sha256_hex env0"
    by (simp add: env_thin_def)
  have digest: "sha256_hex env0 = (\<lambda>s. replicate 64 0x30)"
    by (simp add: env0_def)
  from cache_keys [of env_thin sample_url "js ''q''" AI_CACHE_PREFIX "js ''c1''" env0] same
  have "scrapeCacheKey env_thin sample_url = scrapeCacheKey env0 sample_url"
    and "createCacheKey env_thin (js ''q'') AI_CACHE_PREFIX (js ''c1'') =
           (if js ''q'' = [] \<or> AI_CACHE_PREFIX = [] \<or> js ''c1'' = []
            then Inl (Error (js ''Content, prefix, and conversationId must be provided to create a cache key.''))
            else Inr (AI_CACHE_PREFIX @ js ''c1'' @ js '':'' @ sha256_hex env_thin (js ''q'')))"
    by simp_all
  moreover from cache_keys [of env0 sample_url]
  have "scrapeCacheKey env0 sample_url = js ''scrape:'' @ sha256_hex env0 sample_url"
    by simp
  ultimately show ?thesis
    using same digest by (simp add: AI_CACHE_PREFIX_def CACHE_PREFIX_def js_def)
qed

section \<open>The Resource Pool\<close>

lemma evict_browsers: "browsers (evict env i w) = splice1 i (browsers w)"
  by (simp add: evict_def Let_def logError_def split: option.splits)

lemma unhealthyBrowsers_snoc:
  "unhealthyBrowsers env (bs @ [x]) =
     unhealthyBrowsers env bs @ (if pages_fails env (fst x) then [length bs] else [])"
proof -
  have "filter (\<lambda>index. pages_fails env (fst ((bs @ [x]) ! index))) [0..<length bs] =
        filter (\<lambda>index. pages_fails env (fst (bs ! index))) [0..<length bs]"
    by (rule filter_cong) (simp_all add: nth_append)
  then show ?thesis
    by (simp add: unhealthyBrowsers_def)
qed

lemma fold_evict_browsers:
  "browsers w = bs @ rest \<Longrightarrow>
   browsers (fold (evict env) (rev (unhealthyBrowsers env bs)) w) =
     filter (\<lambda>x. \<not> pages_fails env (fst x)) bs @ rest"
proof (induction bs arbitrary: w rest rule: rev_induct)
  case Nil
  then show ?case by (simp add: unhealthyBrowsers_def)
next
  case (snoc x bs)
  show ?case
  proof (cases "pages_fails env (fst x)")
    case True
    from snoc.prems have "browsers (evict env (length bs) w) = bs @ rest"
      by (simp add: evict_browsers splice1_def)
    from snoc.IH [OF this] True show ?thesis
      by (simp add: unhealthyBrowsers_snoc)
  next
    case False
    from snoc.prems have "browsers w = bs @ (x # rest)" by simp
    from snoc.IH [OF this] False show ?thesis
      by (simp add: unhealthyBrowsers_snoc)
  qed
qed

lemma checkBrowserHealth_browsers:
  "browsers (checkBrowserHealth env w) = filter (\<lambda>x. \<not> pages_fails env (fst x)) (browsers w)"
  using fold_evict_browsers [of w "browsers w" "[]" env]
  by (simp add: checkBrowserHealth_def)

lemma foldl_lru:
  fixes bs :: "(browser \<times> rat) list"
  shows "0 < k \<Longrightarrow> k \<le> length bs \<Longrightarrow>
   foldl (\<lambda>prev curr. if snd (bs ! prev) < snd (bs ! curr) then prev else curr) 0 [1..<k] < k \<and>
   (\<forall>j<k. snd (bs ! foldl (\<lambda>prev curr. if snd (bs ! prev) < snd (bs ! curr) then prev else curr) 0 [1..<k])
           \<le> snd (bs ! j))"
  (is "_ \<Longrightarrow> _ \<Longrightarrow> ?P k")
proof (induction k)
  case 0
  then show ?case by simp
next
  case (Suc k)
  show ?case
  proof (cases "k = 0")
    case True
    then show ?thesis by simp
  next
    case False
    with Suc have IH: "?P k" by simp
    from False have "[1..<Suc k] = [1..<k] @ [k]" by simp
    with IH show ?thesis
      by (auto simp: less_Suc_eq)
  qed
qed

lemma leastRecentlyUsed_least:
  "bs \<noteq> [] \<Longrightarrow> leastRecentlyUsed bs < length bs \<and>
     (\<forall>j<length bs. snd (bs ! leastRecentlyUsed bs) \<le> snd (bs ! j))"
  using foldl_lru [of "length bs" bs] by (simp add: leastRecentlyUsed_def)


lemma getBrowser_bounded:
  assumes "length (browsers w) \<le> maxBrowsers"
  shows "length (browsers (snd (getBrowser env w))) \<le> maxBrowsers"
proof -
  have "length (browsers (checkBrowserHealth env w)) \<le> length (browsers w)"
    by (simp add: checkBrowserHealth_browsers)
  with assms have "length (browsers (checkBrowserHealth env w)) \<le> maxBrowsers"
    by simp
  then show ?thesis
    by (auto simp: getBrowser_alone_eq getBrowser_try_alone Let_def effect_def logError_def
        split: sum.splits prod.splits if_splits)
qed

lemma getBrowser_returns_member:
  assumes "fst (getBrowser env w) = Inr x"
  shows "puppeteer_launch env = Inr x \<or> x \<in> fst ` set (browsers w)"
proof -
  have sub: "set (browsers (checkBrowserHealth env w)) \<subseteq> set (browsers w)"
    by (auto simp: checkBrowserHealth_browsers)
  show ?thesis
  proof (cases "length (browsers (checkBrowserHealth env w)) < maxBrowsers")
    case True
    with assms show ?thesis
      by (auto simp: getBrowser_alone_eq getBrowser_try_alone Let_def split: sum.splits)
  next
    case False
    show ?thesis
    proof (cases "browsers (checkBrowserHealth env w) = []")
      case True
      with False assms show ?thesis
        by (simp add: getBrowser_alone_eq getBrowser_try_alone Let_def)
    next
      case ne: False
      let ?bs = "browsers (checkBrowserHealth env w)"
      from leastRecentlyUsed_least [OF ne] have "?bs ! leastRecentlyUsed ?bs \<in> set ?bs"
        by simp
      with sub have "fst (?bs ! leastRecentlyUsed ?bs) \<in> fst ` set (browsers w)"
        by blast
      with False ne assms show ?thesis
        by (simp add: getBrowser_alone_eq getBrowser_try_alone Let_def)
    qed
  qed
qed

text \<open>
  What a call does when no other call runs during it. The cap is 3, and a pool with at
  most 3 sessions has at most 3 after the call. When the health sweep leaves fewer
  than 3 sessions and the launch succeeds, the call returns the new session and adds
  it at the end of the pool with the current time. When the sweep leaves 3 or more,
  the call returns a session of the pool whose \<open>lastUsed\<close> is least, sets its
  \<open>lastUsed\<close> to the current time and changes nothing else. A session that fails
  the health check is not in the pool after the sweep, and the next call does not
  return it, provided the launch of that call does not hand out the same session
  again.
\<close>

lemma getBrowser_alone:
  "maxBrowsers = 3 \<and>
   (length (browsers w) \<le> maxBrowsers \<longrightarrow>
      length (browsers (snd (getBrowser env w))) \<le> maxBrowsers) \<and>
   (length (browsers (checkBrowserHealth env w)) < maxBrowsers \<and> puppeteer_launch env = Inr b \<longrightarrow>
      fst (getBrowser env w) = Inr b \<and>
      browsers (snd (getBrowser env w)) =
        browsers (checkBrowserHealth env w) @ [(b, Date_now env)]) \<and>
   (maxBrowsers \<le> length (browsers (checkBrowserHealth env w)) \<longrightarrow>
      (let bs = browsers (checkBrowserHealth env w); i = leastRecentlyUsed bs
       in i < length bs \<and> (\<forall>j<length bs. snd (bs ! i) \<le> snd (bs ! j)) \<and>
          fst (getBrowser env w) = Inr (fst (bs ! i)) \<and>
          browsers (snd (getBrowser env w)) = bs[i := (fst (bs ! i), Date_now env)])) \<and>
   (pages_fails env b' \<longrightarrow>
      b' \<notin> fst ` set (browsers (checkBrowserHealth env w)) \<and>
      (puppeteer_launch env' \<noteq> Inr b' \<longrightarrow>
         fst (getBrowser env' (checkBrowserHealth env w)) \<noteq> Inr b'))"
proof (intro conjI impI)
  show "maxBrowsers = 3" by (simp add: maxBrowsers_def MAX_WORKERS_def)
next
  assume "length (browsers w) \<le> maxBrowsers"
  then show "length (browsers (snd (getBrowser env w))) \<le> maxBrowsers"
    by (rule getBrowser_bounded)
next
  assume a: "length (browsers (checkBrowserHealth env w)) < maxBrowsers \<and> puppeteer_launch env = Inr b"
  then show "fst (getBrowser env w) = Inr b"
    by (simp add: getBrowser_alone_eq getBrowser_try_alone Let_def)
  from a show "browsers (snd (getBrowser env w)) =
        browsers (checkBrowserHealth env w) @ [(b, Date_now env)]"
    by (simp add: getBrowser_alone_eq getBrowser_try_alone Let_def effect_def)
next
  assume cap: "maxBrowsers \<le> length (browsers (checkBrowserHealth env w))"
  let ?bs = "browsers (checkBrowserHealth env w)"
  from cap have ne: "?bs \<noteq> []"
    by (auto simp: maxBrowsers_def MAX_WORKERS_def)
  from cap ne leastRecentlyUsed_least [OF ne]
  show "let bs = ?bs; i = leastRecentlyUsed bs
       in i < length bs \<and> (\<forall>j<length bs. snd (bs ! i) \<le> snd (bs ! j)) \<and>
          fst (getBrowser env w) = Inr (fst (bs ! i)) \<and>
          browsers (snd (getBrowser env w)) = bs[i := (fst (bs ! i), Date_now env)]"
    by (simp add: getBrowser_alone_eq getBrowser_try_alone Let_def)
next
  assume bad: "pages_fails env b'"
  then show gone: "b' \<notin> fst ` set (browsers (checkBrowserHealth env w))"
    by (auto simp: checkBrowserHealth_browsers)
  assume "puppeteer_launch env' \<noteq> Inr b'"
  with gone getBrowser_returns_member [of env' "checkBrowserHealth env w" b']
  show "fst (getBrowser env' (checkBrowserHealth env w)) \<noteq> Inr b'"
    by blast
qed


lemma getBrowser_alone_example:
  "maxBrowsers \<le> length (browsers (checkBrowserHealth env0 world_full)) \<and>
   fst (getBrowser env0 world_full) = Inr 2 \<and>
   browsers (snd (getBrowser env0 world_full)) = [(1, 10), (2, 1000), (3, 7)] \<and>
   pages_fails env_sick 2 \<and>
   browsers (checkBrowserHealth env_sick world_full) = [(1, 10), (3, 7)] \<and>
   fst (getBrowser env_sick world_full) = Inr 7 \<and>
   browsers (snd (getBrowser env_sick world_full)) = [(1, 10), (3, 7), (7, 1000)] \<and>
   fst (getBrowser env0 (checkBrowserHealth env_sick world_full)) \<noteq> Inr 2"
proof -
  have cap: "maxBrowsers = 3" by (simp add: maxBrowsers_def MAX_WORKERS_def)
  have healthy: "browsers (checkBrowserHealth env0 world_full) = [(1, 10), (2, 5), (3, 7)]"
    by (simp add: checkBrowserHealth_browsers world_full_def world0_def env0_def)
  have swept: "browsers (checkBrowserHealth env_sick world_full) = [(1, 10), (3, 7)]"
    by (simp add: checkBrowserHealth_browsers world_full_def world0_def env_sick_def env0_def)
  have lru: "leastRecentlyUsed [(1, 10), (2, 5), (3, 7 :: rat)] = 1"
    by (simp add: leastRecentlyUsed_def upt_rec)
  have sick: "pages_fails env_sick 2" "puppeteer_launch env_sick = Inr 7"
    "puppeteer_launch env0 \<noteq> Inr 2" "Date_now env0 = 1000" "Date_now env_sick = 1000"
    by (simp_all add: env_sick_def env0_def)
  from getBrowser_alone [of world_full env0] healthy cap lru sick
  have p3: "fst (getBrowser env0 world_full) = Inr 2"
    "browsers (snd (getBrowser env0 world_full)) = [(1, 10), (2, 1000), (3, 7)]"
    by (simp_all add: Let_def)
  from getBrowser_alone [of world_full env_sick 7] swept cap sick
  have p2: "fst (getBrowser env_sick world_full) = Inr 7"
    "browsers (snd (getBrowser env_sick world_full)) = [(1, 10), (3, 7), (7, 1000)]"
    by simp_all
  from getBrowser_alone [of world_full env_sick 7 2 env0] sick
  have p4: "fst (getBrowser env0 (checkBrowserHealth env_sick world_full)) \<noteq> Inr 2"
    by simp
  show ?thesis
    using p2 p3 p4 healthy swept cap sick by simp
qed

section \<open>Calls that overlap\<close>

text \<open>A schedule with one call and its launch is the call that runs alone.\<close>

lemma pool_run_alone:
  "pool_run [Enter env, LaunchDone env] (w, 0) = (snd (getBrowser env w), 0)"
  by (simp add: getBrowser_def getBrowser_try_def split: prod.splits option.splits)

text \<open>
  C9 fails on the code when calls overlap. The cap is 3, and
  \<^verbatim>\<open>getBrowser\<close> tests the length of the pool before it awaits the launch and
  pushes after it. Five calls that start together on the empty pool all find the
  length 0 below the cap, all launch, and all push: the pool ends with the five
  sessions 1 to 5, two more than the cap, and no call is left waiting.
\<close>

theorem overlapping_calls_exceed_cap:
  "maxBrowsers = 3 \<and>
   pool_run five_overlapping (world0, 0) =
     (world0\<lparr>browsers := [(1, 1000), (2, 1000), (3, 1000), (4, 1000), (5, 1000)],
             trace := [BrowserLaunch, BrowserLaunch, BrowserLaunch, BrowserLaunch,
                       BrowserLaunch]\<rparr>, 0) \<and>
   length (browsers (fst (pool_run five_overlapping (world0, 0)))) = 5 \<and>
   maxBrowsers < length (browsers (fst (pool_run five_overlapping (world0, 0))))"
proof -
  have cap: "maxBrowsers = 3"
    by (simp add: maxBrowsers_def MAX_WORKERS_def)
  have enter: "getBrowser_begin env0 w = (None, effect BrowserLaunch w)" if "browsers w = []" for w
    using that
    by (simp add: getBrowser_begin_def checkBrowserHealth_def unhealthyBrowsers_def cap)
  have resumed: "getBrowser_catch (getBrowser_resume (launching b) w) =
      (Inr b, w\<lparr>browsers := browsers w @ [(b, 1000)]\<rparr>)" for b w
    by (simp add: getBrowser_catch_def getBrowser_resume_def launching_def env0_def)
  have run: "pool_run five_overlapping (world0, 0) =
     (world0\<lparr>browsers := [(1, 1000), (2, 1000), (3, 1000), (4, 1000), (5, 1000)],
             trace := [BrowserLaunch, BrowserLaunch, BrowserLaunch, BrowserLaunch,
                       BrowserLaunch]\<rparr>, 0)"
    by (simp add: five_overlapping_def enter resumed effect_def world0_def)
  then show ?thesis
    using cap by simp
qed

section \<open>The orchestrator never throws\<close>

lemma getCachedContent_total: "getCachedContent env w key = (Inl e, w1) \<Longrightarrow> False"
  using getCachedContent_returns [of env w key] by auto

lemma setCachedContent_total: "setCachedContent env w key v = (Inl e, w1) \<Longrightarrow> False"
  using setCachedContent_returns [of env w key v] by auto

text \<open>
  C1, as stated, fails for the cache lookup: with a store whose \<^verbatim>\<open>get\<close> rejects,
  the exception is caught inside \<^verbatim>\<open>getCachedContent\<close>, the lookup counts as a miss
  and the scrape of a good page returns a success, with no error.
\<close>

theorem lookup_failure_not_converted:
  "redis_get_error env_redis_down (scrapeCacheKey env_redis_down sample_url) =
     Some (Error (js ''ECONNREFUSED'')) \<and>
   (case fst (scrapeWebContent env_redis_down world0 sample_url) of
      Inr r \<Rightarrow> success r \<and> error r = None \<and> content r = sample_text
    | Inl e \<Rightarrow> False)"
  using sample_url_valid sample_text_meaningful
  by (simp add: scrapeWebContent_def scrapeWebContent_try_def cache_defs Let_def
      scrape_success_def env_redis_down_def env0_def)

text \<open>
  C1, amended. \<^verbatim>\<open>scrapeWebContent\<close> returns a result for every URL, world and
  outside: it never throws. For a valid URL that misses the cache, an exception of the
  fetch, of the static extraction, or of the dynamic extraction (reached when the
  static content is rejected; it includes the acquisition of a session) is converted
  into a result with \<open>success = false\<close>, no content, and the text of the
  exception as its error. An exception of the store during the lookup does not reach
  the orchestrator: the Cache Layer writes it to the console and reports a miss.
\<close>

theorem orchestrator_never_throws:
  "(\<exists>r w'. scrapeWebContent env w u = (Inr r, w')) \<and>
   (u \<noteq> [] \<and> startsWith u (js ''http'') \<and>
    fst (getCachedContent env w (scrapeCacheKey env u)) = Inr None \<longrightarrow>
      (fetch_text env u = Inl e \<longrightarrow>
         (\<exists>r w'. scrapeWebContent env w u = (Inr r, w') \<and> failure_of e r)) \<and>
      (fetch_text env u = Inr html \<and> scrapeWithCheerio env html = Inl e \<longrightarrow>
         (\<exists>r w'. scrapeWebContent env w u = (Inr r, w') \<and> failure_of e r)) \<and>
      (fetch_text env u = Inr html \<and> scrapeWithCheerio env html = Inr c \<and>
       \<not> isContentMeaningful c \<and>
       fst (scrapeWithPuppeteer env
              (effect (NetworkFetch u) (snd (getCachedContent env w (scrapeCacheKey env u)))) u) = Inl e \<longrightarrow>
         (\<exists>r w'. scrapeWebContent env w u = (Inr r, w') \<and> failure_of e r))) \<and>
   (redis_get_error env key = Some e' \<longrightarrow>
      getCachedContent env w key =
        (Inr None, logError (js ''getCachedContent'') e' (effect (RedisGet key) w)))"
proof (intro conjI impI)
  show "\<exists>r w'. scrapeWebContent env w u = (Inr r, w')"
    by (auto simp: scrapeWebContent_def Let_def split: prod.splits sum.splits)
next
  assume "redis_get_error env key = Some e'"
  then show "getCachedContent env w key =
        (Inr None, logError (js ''getCachedContent'') e' (effect (RedisGet key) w))"
    by (simp add: getCachedContent_def getCachedContent_try_def redis_get_def)
next
  assume pre: "u \<noteq> [] \<and> startsWith u (js ''http'') \<and>
    fst (getCachedContent env w (scrapeCacheKey env u)) = Inr None"
  then obtain w1 where miss: "getCachedContent env w (scrapeCacheKey env u) = (Inr None, w1)"
    by (cases "getCachedContent env w (scrapeCacheKey env u)") simp
  {
    assume "fetch_text env u = Inl e"
    with pre miss show "\<exists>r w'. scrapeWebContent env w u = (Inr r, w') \<and> failure_of e r"
      by (simp add: scrapeWebContent_def scrapeWebContent_try_def Let_def scrape_failure_def
          failure_of_def)
  next
    assume "fetch_text env u = Inr html \<and> scrapeWithCheerio env html = Inl e"
    with pre miss show "\<exists>r w'. scrapeWebContent env w u = (Inr r, w') \<and> failure_of e r"
      by (simp add: scrapeWebContent_def scrapeWebContent_try_def Let_def scrape_failure_def
          failure_of_def)
  next
    assume a: "fetch_text env u = Inr html \<and> scrapeWithCheerio env html = Inr c \<and>
       \<not> isContentMeaningful c \<and>
       fst (scrapeWithPuppeteer env
              (effect (NetworkFetch u) (snd (getCachedContent env w (scrapeCacheKey env u)))) u) = Inl e"
    with miss obtain w3 where
      "scrapeWithPuppeteer env (effect (NetworkFetch u) w1) u = (Inl e, w3)"
      by (cases "scrapeWithPuppeteer env (effect (NetworkFetch u) w1) u") simp
    with a pre miss show "\<exists>r w'. scrapeWebContent env w u = (Inr r, w') \<and> failure_of e r"
      by (simp add: scrapeWebContent_def scrapeWebContent_try_def Let_def scrape_failure_def
          failure_of_def)
  }
qed


lemma world0_miss:
  "redis_get_error env key = None \<Longrightarrow>
   getCachedContent env world0 key = (Inr None, effect (RedisGet key) world0)"
  by (simp add: getCachedContent_def getCachedContent_try_def redis_get_def world0_def effect_def)

theorem orchestrator_never_throws_witness:
  "fst (getCachedContent env_offline world0 (scrapeCacheKey env_offline sample_url)) = Inr None \<and>
   fetch_text env_offline sample_url = Inl (Error (js ''fetch failed'')) \<and>
   (case fst (scrapeWebContent env_offline world0 sample_url) of
      Inr r \<Rightarrow> success r = False \<and> error r = Some (js ''fetch failed'') \<and> content r = []
    | Inl e \<Rightarrow> False) \<and>
   scrapeWithCheerio env_bad_markup (js ''<article></article>'') = Inl (Thrown (js ''boom'')) \<and>
   (case fst (scrapeWebContent env_bad_markup world0 sample_url) of
      Inr r \<Rightarrow> success r = False \<and> error r = Some (js ''boom'') \<and> content r = []
    | Inl e \<Rightarrow> False) \<and>
   puppeteer_launch env_no_browser = Inl (Error (js ''no chrome'')) \<and>
   (case fst (scrapeWebContent env_no_browser world0 sample_url) of
      Inr r \<Rightarrow> success r = False \<and>
               error r = Some (js ''Failed to launch browser: no chrome'') \<and> content r = []
    | Inl e \<Rightarrow> False) \<and>
   redis_get_error env_redis_down (js ''k'') = Some (Error (js ''ECONNREFUSED'')) \<and>
   fst (getCachedContent env_redis_down world0 (js ''k'')) = Inr None"
proof -
  have valid: "sample_url \<noteq> []" "startsWith sample_url (js ''http'')"
    using sample_url_valid by simp_all
  have up: "redis_get_error env_offline k = None" "redis_get_error env_bad_markup k = None"
    "redis_get_error env_no_browser k = None" for k
    by (simp_all add: env_offline_def env_bad_markup_def env_no_browser_def env0_def)
  have m1: "fst (getCachedContent env_offline world0 (scrapeCacheKey env_offline sample_url)) = Inr None"
    and m2: "fst (getCachedContent env_bad_markup world0 (scrapeCacheKey env_bad_markup sample_url)) = Inr None"
    and m3: "fst (getCachedContent env_no_browser world0 (scrapeCacheKey env_no_browser sample_url)) = Inr None"
    by (simp_all add: world0_miss up)
  have f1: "fetch_text env_offline sample_url = Inl (Error (js ''fetch failed''))"
    by (simp add: env_offline_def)
  have f2: "fetch_text env_bad_markup sample_url = Inr (js ''<article></article>'')"
    "scrapeWithCheerio env_bad_markup (js ''<article></article>'') = Inl (Thrown (js ''boom''))"
    by (simp_all add: env_bad_markup_def env0_def)
  have f3: "fetch_text env_no_browser sample_url = Inr (js ''<article></article>'')"
    "scrapeWithCheerio env_no_browser (js ''<article></article>'') = Inr []"
    "puppeteer_launch env_no_browser = Inl (Error (js ''no chrome''))"
    by (simp_all add: env_no_browser_def env0_def)
  have f3': "fst (scrapeWithPuppeteer env_no_browser
              (effect (NetworkFetch sample_url)
                 (snd (getCachedContent env_no_browser world0 (scrapeCacheKey env_no_browser sample_url))))
              sample_url) = Inl (Error (js ''Failed to launch browser: no chrome''))"
    unfolding world0_miss [OF up(3)] snd_conv
    by (simp add: scrapeWithPuppeteer_def getBrowser_alone_eq getBrowser_try_alone
        checkBrowserHealth_def unhealthyBrowsers_def maxBrowsers_def MAX_WORKERS_def
        env_no_browser_def env0_def world0_def effect_def Let_def js_def)
  have d: "redis_get_error env_redis_down (js ''k'') = Some (Error (js ''ECONNREFUSED''))"
    by (simp add: env_redis_down_def)
  from orchestrator_never_throws [of env_offline world0 sample_url "Error (js ''fetch failed'')"]
    valid m1 f1
  obtain r1 w1 where r1: "scrapeWebContent env_offline world0 sample_url = (Inr r1, w1)"
    "failure_of (Error (js ''fetch failed'')) r1"
    by blast
  from orchestrator_never_throws [of env_bad_markup world0 sample_url "Thrown (js ''boom'')"
      "js ''<article></article>''"] valid m2 f2
  obtain r2 w2 where r2: "scrapeWebContent env_bad_markup world0 sample_url = (Inr r2, w2)"
    "failure_of (Thrown (js ''boom'')) r2"
    by blast
  from orchestrator_never_throws [of env_no_browser world0 sample_url
      "Error (js ''Failed to launch browser: no chrome'')" "js ''<article></article>''" "[]"]
    valid m3 f3 f3' empty_not_meaningful
  obtain r3 w3 where r3: "scrapeWebContent env_no_browser world0 sample_url = (Inr r3, w3)"
    "failure_of (Error (js ''Failed to launch browser: no chrome'')) r3"
    by blast
  from orchestrator_never_throws [of env_redis_down world0 sample_url _ _ _ "js ''k''"
      "Error (js ''ECONNREFUSED'')"] d
  have r4: "fst (getCachedContent env_redis_down world0 (js ''k'')) = Inr None"
    by simp
  show ?thesis
    using m1 f1 f2 f3 d r1 r2 r3 r4 by (simp add: failure_of_def)
qed

section \<open>The paths through the orchestrator\<close>

lemma try_hit:
  "getCachedContent env w key = (Inr (Some c), w1) \<Longrightarrow>
   scrapeWebContent_try env w u key m0 =
     (Inr (c\<lparr>metrics := Some (m0\<lparr>metrics_method := Cache,
                                  totalTime := performance_now env 1 - startTime m0\<rparr>)\<rparr>), w1)"
  by (simp add: scrapeWebContent_try_def Let_def)

lemma try_fetch_fails:
  "getCachedContent env w key = (Inr None, w1) \<Longrightarrow> fetch_text env u = Inl e \<Longrightarrow>
   scrapeWebContent_try env w u key m0 =
     (Inl (e, m0\<lparr>cheerioAttemptTime := Some (performance_now env 1)\<rparr>),
      effect (NetworkFetch u) w1)"
  by (simp add: scrapeWebContent_try_def Let_def)

lemma try_static_fails:
  "getCachedContent env w key = (Inr None, w1) \<Longrightarrow> fetch_text env u = Inr html \<Longrightarrow>
   scrapeWithCheerio env html = Inl e \<Longrightarrow>
   scrapeWebContent_try env w u key m0 =
     (Inl (e, m0\<lparr>cheerioAttemptTime := Some (performance_now env 1)\<rparr>),
      effect (NetworkFetch u) w1)"
  by (simp add: scrapeWebContent_try_def Let_def)

lemma try_static_ok:
  "getCachedContent env w key = (Inr None, w1) \<Longrightarrow> fetch_text env u = Inr html \<Longrightarrow>
   scrapeWithCheerio env html = Inr c \<Longrightarrow> isContentMeaningful c \<Longrightarrow>
   r = scrape_success env u c (js ''cheerio'')
         (m0\<lparr>cheerioAttemptTime := Some (performance_now env 1), metrics_success := True,
             totalTime := performance_now env 2 - startTime m0\<rparr>) \<Longrightarrow>
   setCachedContent env (effect (NetworkFetch u) w1) key (Some r) = (Inr (), w3) \<Longrightarrow>
   scrapeWebContent_try env w u key m0 = (Inr r, w3)"
  by (simp add: scrapeWebContent_try_def Let_def)

lemma try_dynamic_fails:
  "getCachedContent env w key = (Inr None, w1) \<Longrightarrow> fetch_text env u = Inr html \<Longrightarrow>
   scrapeWithCheerio env html = Inr c \<Longrightarrow> \<not> isContentMeaningful c \<Longrightarrow>
   scrapeWithPuppeteer env (effect (NetworkFetch u) w1) u = (Inl e, w3) \<Longrightarrow>
   scrapeWebContent_try env w u key m0 =
     (Inl (e, m0\<lparr>cheerioAttemptTime := Some (performance_now env 1),
                  metrics_method := Puppeteer,
                  puppeteerAttemptTime := Some (performance_now env 2)\<rparr>), w3)"
  by (simp add: scrapeWebContent_try_def Let_def)

lemma try_dynamic_ok:
  "getCachedContent env w key = (Inr None, w1) \<Longrightarrow> fetch_text env u = Inr html \<Longrightarrow>
   scrapeWithCheerio env html = Inr c \<Longrightarrow> \<not> isContentMeaningful c \<Longrightarrow>
   scrapeWithPuppeteer env (effect (NetworkFetch u) w1) u = (Inr d, w3) \<Longrightarrow>
   isContentMeaningful d \<Longrightarrow>
   r = scrape_success env u d (js ''puppeteer'')
         (m0\<lparr>cheerioAttemptTime := Some (performance_now env 1), metrics_method := Puppeteer,
             puppeteerAttemptTime := Some (performance_now env 2), metrics_success := True,
             totalTime := performance_now env 3 - startTime m0\<rparr>) \<Longrightarrow>
   setCachedContent env w3 key (Some r) = (Inr (), w4) \<Longrightarrow>
   scrapeWebContent_try env w u key m0 = (Inr r, w4)"
  by (simp add: scrapeWebContent_try_def Let_def)

lemma try_rejected:
  "getCachedContent env w key = (Inr None, w1) \<Longrightarrow> fetch_text env u = Inr html \<Longrightarrow>
   scrapeWithCheerio env html = Inr c \<Longrightarrow> \<not> isContentMeaningful c \<Longrightarrow>
   scrapeWithPuppeteer env (effect (NetworkFetch u) w1) u = (Inr d, w3) \<Longrightarrow>
   \<not> isContentMeaningful d \<Longrightarrow>
   scrapeWebContent_try env w u key m0 =
     (Inr (scrape_failure env u (js ''Failed to extract meaningful content'')
             (js ''Content validation failed'')
             (m0\<lparr>cheerioAttemptTime := Some (performance_now env 1), metrics_method := Puppeteer,
                 puppeteerAttemptTime := Some (performance_now env 2),
                 totalTime := performance_now env 3 - startTime m0\<rparr>)), w3)"
  by (simp add: scrapeWebContent_try_def Let_def)


lemma scrape_invalid:
  "u = [] \<or> \<not> startsWith u (js ''http'') \<Longrightarrow>
   scrapeWebContent env w u =
     (Inr (scrape_failure env u (js ''Invalid URL'') (js ''Invalid URL provided'') (metrics0 env)), w)"
  by (simp add: scrapeWebContent_def Let_def)

lemma scrape_valid_returned:
  "u \<noteq> [] \<Longrightarrow> startsWith u (js ''http'') \<Longrightarrow>
   scrapeWebContent_try env w u (scrapeCacheKey env u) (metrics0 env) = (Inr r, w1) \<Longrightarrow>
   scrapeWebContent env w u = (Inr r, w1)"
  by (simp add: scrapeWebContent_def Let_def)

lemma scrape_valid_caught:
  "u \<noteq> [] \<Longrightarrow> startsWith u (js ''http'') \<Longrightarrow>
   scrapeWebContent_try env w u (scrapeCacheKey env u) (metrics0 env) = (Inl (e, m), w1) \<Longrightarrow>
   scrapeWebContent env w u =
     (Inr (scrape_failure env u (js ''Scraping Failed'') (exn_text e)
             (m\<lparr>totalTime := performance_now env (readings m) - startTime m\<rparr>)),
      logError (js ''Scraping failed for '' @ u @ js '':'') e w1)"
  by (simp add: scrapeWebContent_def Let_def)

section \<open>The invariant of results\<close>

lemma cache_sound_hit:
  "cache_sound env w \<Longrightarrow> getCachedContent env w key = (Inr (Some c), w1) \<Longrightarrow> result_ok c"
  by (auto simp: cache_sound_def cached_ok_def cache_defs
      split: option.splits redis_data.splits sum.splits prod.splits if_splits)

lemma setCachedContent_store:
  "setCachedContent env w key (Some r) = (x, w') \<Longrightarrow>
   redis_store w' = redis_store w \<or>
   redis_store w' = (redis_store w)(key \<mapsto> RString (JSON_stringify env r))"
  by (auto simp: cache_defs Let_def split: option.splits sum.splits prod.splits)

lemma cache_sound_set:
  assumes "cache_sound env w" and "setCachedContent env w key (Some r) = (x, w')"
    and "serialises_ok env" and "result_ok r"
  shows "cache_sound env w'"
proof -
  from assms(3,4) have "cached_ok env (RString (JSON_stringify env r))"
    by (simp add: serialises_ok_def)
  with setCachedContent_store [OF assms(2)] assms(1) show ?thesis
    by (auto simp: cache_sound_def split: if_splits)
qed

lemma scrape_success_ok: "isContentMeaningful c \<Longrightarrow> result_ok (scrape_success env u c how m)"
  using empty_not_meaningful by (auto simp: result_ok_def scrape_success_def)

lemma scrape_failure_ok: "result_ok (scrape_failure env u t e m)"
  by (simp add: result_ok_def scrape_failure_def)

lemma result_ok_metrics: "result_ok (c\<lparr>metrics := m\<rparr>) = result_ok c"
  by (simp add: result_ok_def)

lemma result_okD:
  "result_ok r \<Longrightarrow>
     (success r \<longleftrightarrow> content r \<noteq> [] \<and> isContentMeaningful (content r)) \<and>
     (\<not> success r \<longrightarrow> content r = [])"
  unfolding result_ok_def .

lemma try_invariant:
  assumes "cache_sound env w" and "scrapeWebContent_try env w u key m0 = (x, w')"
  shows "(case x of Inr r \<Rightarrow> result_ok r | Inl e \<Rightarrow> True) \<and>
         (serialises_ok env \<longrightarrow> cache_sound env w')"
proof -
  obtain g w1 where g: "getCachedContent env w key = (Inr g, w1)"
    using getCachedContent_returns [of env w key]
    by (cases "getCachedContent env w key") auto
  from getCachedContent_frame [OF g] assms(1) have s1: "cache_sound env w1"
    by (simp add: cache_sound_def)
  let ?w2 = "effect (NetworkFetch u) w1"
  have s2: "cache_sound env ?w2"
    using s1 by (simp add: cache_sound_def effect_def)
  show ?thesis
  proof (cases g)
    case (Some c)
    from g Some have hit: "getCachedContent env w key = (Inr (Some c), w1)" by simp
    from cache_sound_hit [OF assms(1) hit] have "result_ok c" .
    with try_hit [OF hit, of u m0] assms(2) s1 show ?thesis
      by (simp add: result_ok_metrics)
  next
    case None
    with g have miss: "getCachedContent env w key = (Inr None, w1)" by simp
    show ?thesis
    proof (cases "fetch_text env u")
      case (Inl e)
      from try_fetch_fails [OF miss Inl, of m0] assms(2) s2 show ?thesis
        by simp
    next
      case (Inr html)
      note fetch = this
      show ?thesis
      proof (cases "scrapeWithCheerio env html")
        case (Inl e)
        from try_static_fails [OF miss fetch Inl, of m0] assms(2) s2 show ?thesis
          by simp
      next
        case (Inr c)
        note static = this
        show ?thesis
        proof (cases "isContentMeaningful c")
          case True
          define r where "r = scrape_success env u c (js ''cheerio'')
                      (m0\<lparr>cheerioAttemptTime := Some (performance_now env 1),
                          metrics_success := True,
                          totalTime := performance_now env 2 - startTime m0\<rparr>)"
          obtain w3 where set: "setCachedContent env ?w2 key (Some r) = (Inr (), w3)"
            using setCachedContent_returns [of env ?w2 key "Some r"]
            by (cases "setCachedContent env ?w2 key (Some r)") auto
          from try_static_ok [OF miss fetch static True r_def set] assms(2)
          have x: "x = Inr r" "w' = w3" by simp_all
          from True have ok: "result_ok r" unfolding r_def by (rule scrape_success_ok)
          with x cache_sound_set [OF s2 set _ ok] show ?thesis by simp
        next
          case False
          obtain d w3 where dyn: "scrapeWithPuppeteer env ?w2 u = (d, w3)"
            by (cases "scrapeWithPuppeteer env ?w2 u") auto
          from scrapeWithPuppeteer_frame [OF dyn] s2 have s3: "cache_sound env w3"
            by (simp add: cache_sound_def)
          show ?thesis
          proof (cases d)
            case (Inl e)
            with dyn have "scrapeWithPuppeteer env ?w2 u = (Inl e, w3)" by simp
            from try_dynamic_fails [OF miss fetch static False this, of m0] assms(2) s3
            show ?thesis by simp
          next
            case (Inr dc)
            with dyn have dyn': "scrapeWithPuppeteer env ?w2 u = (Inr dc, w3)" by simp
            show ?thesis
            proof (cases "isContentMeaningful dc")
              case True
              define r where "r = scrape_success env u dc (js ''puppeteer'')
                 (m0\<lparr>cheerioAttemptTime := Some (performance_now env 1),
                     metrics_method := Puppeteer,
                     puppeteerAttemptTime := Some (performance_now env 2),
                     metrics_success := True,
                     totalTime := performance_now env 3 - startTime m0\<rparr>)"
              obtain w4 where set: "setCachedContent env w3 key (Some r) = (Inr (), w4)"
                using setCachedContent_returns [of env w3 key "Some r"]
                by (cases "setCachedContent env w3 key (Some r)") auto
              from try_dynamic_ok [OF miss fetch static False dyn' True r_def set] assms(2)
              have x: "x = Inr r" "w' = w4" by simp_all
              from True have ok: "result_ok r" unfolding r_def by (rule scrape_success_ok)
              with x cache_sound_set [OF s3 set _ ok] show ?thesis by simp
            next
              case nope: False
              from try_rejected [OF miss fetch static False dyn' nope, of m0] assms(2) s3
              show ?thesis by (simp add: scrape_failure_ok)
            qed
          qed
        qed
      qed
    qed
  qed
qed

text \<open>
  C2. In a world whose store holds only what reads back as a result satisfying the
  invariant (the empty store does), \<^verbatim>\<open>scrapeWebContent\<close> returns a result that is
  a success exactly when its content is not empty and passes the Quality Gate, and
  whose content is empty when it is a failure; and the store it leaves is again such
  a store, when serialiser and parser agree.
\<close>

theorem result_invariant:
  assumes "cache_sound env w"
  shows "\<exists>r w'. scrapeWebContent env w u = (Inr r, w') \<and>
           (success r \<longleftrightarrow> content r \<noteq> [] \<and> isContentMeaningful (content r)) \<and>
           (\<not> success r \<longrightarrow> content r = []) \<and>
           (serialises_ok env \<longrightarrow> cache_sound env w')"
proof -
  have "\<exists>r w'. scrapeWebContent env w u = (Inr r, w') \<and> result_ok r \<and>
          (serialises_ok env \<longrightarrow> cache_sound env w')"
  proof (cases "u = [] \<or> \<not> startsWith u (js ''http'')")
    case True
    from scrape_invalid [OF True, of env w] scrape_failure_ok assms show ?thesis
      by blast
  next
    case False
    then have valid: "u \<noteq> []" "startsWith u (js ''http'')" by simp_all
    obtain x w1 where t: "scrapeWebContent_try env w u (scrapeCacheKey env u) (metrics0 env) = (x, w1)"
      by (cases "scrapeWebContent_try env w u (scrapeCacheKey env u) (metrics0 env)") auto
    from try_invariant [OF assms t]
    have inv: "case x of Inr r \<Rightarrow> result_ok r | Inl e \<Rightarrow> True"
      and sound: "serialises_ok env \<longrightarrow> cache_sound env w1"
      by blast+
    show ?thesis
    proof (cases x)
      case (Inr r)
      with t have "scrapeWebContent_try env w u (scrapeCacheKey env u) (metrics0 env) = (Inr r, w1)"
        by simp
      from scrape_valid_returned [OF valid this]
      have "scrapeWebContent env w u = (Inr r, w1)" .
      moreover from inv Inr have "result_ok r" by simp
      ultimately show ?thesis using sound by blast
    next
      case (Inl em)
      obtain e m where em: "em = (e, m)" by (cases em) auto
      with t Inl
      have "scrapeWebContent_try env w u (scrapeCacheKey env u) (metrics0 env) = (Inl (e, m), w1)"
        by simp
      note run = scrape_valid_caught [OF valid this]
      have "cache_sound env (logError (js ''Scraping failed for '' @ u @ js '':'') e w1) =
            cache_sound env w1"
        by (simp add: cache_sound_def logError_def)
      with sound run scrape_failure_ok show ?thesis by blast
    qed
  qed
  then obtain r w' where "scrapeWebContent env w u = (Inr r, w')" "result_ok r"
    "serialises_ok env \<longrightarrow> cache_sound env w'"
    by blast
  with result_okD [of r] show ?thesis by blast
qed


lemma first_run: "scrapeWebContent env0 world0 sample_url = (Inr cached0, world1)"
proof -
  have miss: "getCachedContent env0 world0 (scrapeCacheKey env0 sample_url) =
        (Inr None, effect (RedisGet (scrapeCacheKey env0 sample_url)) world0)"
    by (simp add: getCachedContent_def getCachedContent_try_def redis_get_def world0_def
        effect_def env0_def)
  have fetch: "fetch_text env0 sample_url = Inr (js ''<article></article>'')"
    and static: "scrapeWithCheerio env0 (js ''<article></article>'') = Inr sample_text"
    by (simp_all add: env0_def)
  have r: "cached0 = scrape_success env0 sample_url sample_text (js ''cheerio'')
         ((metrics0 env0)\<lparr>cheerioAttemptTime := Some (performance_now env0 1),
             metrics_success := True,
             totalTime := performance_now env0 2 - startTime (metrics0 env0)\<rparr>)"
    by (simp add: cached0_def scrape_success_def env0_def)
  have set: "setCachedContent env0
       (effect (NetworkFetch sample_url) (effect (RedisGet (scrapeCacheKey env0 sample_url)) world0))
       (scrapeCacheKey env0 sample_url) (Some cached0) = (Inr (), world1)"
    by (simp add: setCachedContent_def setCachedContent_try_def redis_set_def effect_def
        world1_def world0_def cached0_def env0_def)
  from try_static_ok [OF miss fetch static sample_text_meaningful r set]
  show ?thesis
    using sample_url_valid by (simp add: scrape_valid_returned)
qed

lemma cached0_ok: "result_ok cached0"
  using sample_text_meaningful sample_text_nonempty
  by (simp add: result_ok_def cached0_def)

lemma env0_serialises_ok: "serialises_ok env0"
  by (simp add: serialises_ok_def cached_ok_def env0_def cached0_ok)

theorem result_invariant_witness:
  "cache_sound env0 world0 \<and>
   scrapeWebContent env0 world0 sample_url = (Inr cached0, world1) \<and>
   success cached0 \<and> content cached0 \<noteq> [] \<and> isContentMeaningful (content cached0) \<and>
   serialises_ok env0 \<and> cache_sound env0 world1"
proof -
  have start: "cache_sound env0 world0"
    by (simp add: cache_sound_def world0_def)
  from result_invariant [OF start, of sample_url]
  obtain r w' where run: "scrapeWebContent env0 world0 sample_url = (Inr r, w')"
    and iff: "success r \<longleftrightarrow> content r \<noteq> [] \<and> isContentMeaningful (content r)"
    and sound: "serialises_ok env0 \<longrightarrow> cache_sound env0 w'"
    by blast
  from run first_run have same: "r = cached0" "w' = world1"
    by simp_all
  have ok: "success cached0"
    by (simp add: cached0_def)
  from iff same ok have gate: "content cached0 \<noteq> []" "isContentMeaningful (content cached0)"
    by blast+
  from sound same env0_serialises_ok have after: "cache_sound env0 world1"
    by blast
  show ?thesis
    using start first_run ok gate env0_serialises_ok after by blast
qed

section \<open>The second call\<close>

lemma scrape_populates:
  assumes valid: "u \<noteq> []" "startsWith u (js ''http'')"
    and miss: "fst (getCachedContent env w (scrapeCacheKey env u)) = Inr None"
    and run: "scrapeWebContent env w u = (Inr r, w')"
    and ok: "success r" and up: "redis_set_error env (scrapeCacheKey env u) = None"
  shows "redis_store w' (scrapeCacheKey env u) = Some (RString (JSON_stringify env r))"
proof -
  let ?key = "scrapeCacheKey env u"
  obtain w1 where g: "getCachedContent env w ?key = (Inr None, w1)"
    using miss by (cases "getCachedContent env w ?key") simp
  let ?w2 = "effect (NetworkFetch u) w1"
  have stored: "redis_store w3 ?key = Some (RString (JSON_stringify env x))"
    if "setCachedContent env w0 ?key (Some x) = (Inr (), w3)" for w0 w3 x
    using that up
    by (auto simp: setCachedContent_def setCachedContent_try_def redis_set_def effect_def Let_def
        split: option.splits)
  show ?thesis
  proof (cases "fetch_text env u")
    case (Inl e)
    from scrape_valid_caught [OF valid try_fetch_fails [OF g Inl]] run ok show ?thesis
      by (simp add: scrape_failure_def)
  next
    case (Inr html)
    note fetch = this
    show ?thesis
    proof (cases "scrapeWithCheerio env html")
      case (Inl e)
      from scrape_valid_caught [OF valid try_static_fails [OF g fetch Inl]] run ok show ?thesis
        by (simp add: scrape_failure_def)
    next
      case (Inr c)
      note static = this
      show ?thesis
      proof (cases "isContentMeaningful c")
        case True
        define x where "x = scrape_success env u c (js ''cheerio'')
                      ((metrics0 env)\<lparr>cheerioAttemptTime := Some (performance_now env 1),
                          metrics_success := True,
                          totalTime := performance_now env 2 - startTime (metrics0 env)\<rparr>)"
        obtain w3 where set: "setCachedContent env ?w2 ?key (Some x) = (Inr (), w3)"
          using setCachedContent_returns [of env ?w2 ?key "Some x"]
          by (cases "setCachedContent env ?w2 ?key (Some x)") auto
        from scrape_valid_returned [OF valid try_static_ok [OF g fetch static True x_def set]] run
        have "r = x" "w' = w3" by simp_all
        with stored [OF set] show ?thesis by simp
      next
        case False
        obtain d w3 where dyn: "scrapeWithPuppeteer env ?w2 u = (d, w3)"
          by (cases "scrapeWithPuppeteer env ?w2 u") auto
        show ?thesis
        proof (cases d)
          case (Inl e)
          with dyn have "scrapeWithPuppeteer env ?w2 u = (Inl e, w3)" by simp
          from scrape_valid_caught [OF valid try_dynamic_fails [OF g fetch static False this]] run ok
          show ?thesis by (simp add: scrape_failure_def)
        next
          case (Inr dc)
          with dyn have dyn': "scrapeWithPuppeteer env ?w2 u = (Inr dc, w3)" by simp
          show ?thesis
          proof (cases "isContentMeaningful dc")
            case True
            define x where "x = scrape_success env u dc (js ''puppeteer'')
                 ((metrics0 env)\<lparr>cheerioAttemptTime := Some (performance_now env 1),
                     metrics_method := Puppeteer,
                     puppeteerAttemptTime := Some (performance_now env 2),
                     metrics_success := True,
                     totalTime := performance_now env 3 - startTime (metrics0 env)\<rparr>)"
            obtain w4 where set: "setCachedContent env w3 ?key (Some x) = (Inr (), w4)"
              using setCachedContent_returns [of env w3 ?key "Some x"]
              by (cases "setCachedContent env w3 ?key (Some x)") auto
            from scrape_valid_returned
              [OF valid try_dynamic_ok [OF g fetch static False dyn' True x_def set]] run
            have "r = x" "w' = w4" by simp_all
            with stored [OF set] show ?thesis by simp
          next
            case nope: False
            from scrape_valid_returned [OF valid try_rejected [OF g fetch static False dyn' nope]]
              run ok
            show ?thesis by (simp add: scrape_failure_def)
          qed
        qed
      qed
    qed
  qed
qed


text \<open>
  C3. Let a first call on a valid URL miss the cache, return a success and have its
  write accepted by the store (it populated the cache). In any later world where that
  entry is still in the store, with an outside where the lookup does not fail and the
  stored text parses back to the first result, a second call on the same URL returns
  the first result with only its metrics replaced: same content, same success, the
  method of the metrics is \<open>cache\<close>. Its only effect is the lookup: no fetch,
  no launch and no rendering is added to the trace, and the store is unchanged.
\<close>

theorem second_call_served_from_cache:
  assumes valid: "u \<noteq> []" "startsWith u (js ''http'')"
    and miss: "fst (getCachedContent env w (scrapeCacheKey env u)) = Inr None"
    and first: "scrapeWebContent env w u = (Inr r1, w1)"
    and ok: "success r1"
    and stored: "redis_set_error env (scrapeCacheKey env u) = None"
    and kept: "redis_store w2 (scrapeCacheKey env u) = redis_store w1 (scrapeCacheKey env u)"
    and same_hash: "sha256_hex env' u = sha256_hex env u"
    and readable: "redis_get_error env' (scrapeCacheKey env u) = None"
    and nonempty: "JSON_stringify env r1 \<noteq> []"
    and roundtrip: "JSON_parse env' (JSON_stringify env r1) = Inr r1"
  shows "let m = \<lparr>startTime = performance_now env' 0, cheerioAttemptTime = None,
                   puppeteerAttemptTime = None,
                   totalTime = performance_now env' 1 - performance_now env' 0,
                   metrics_success = False, metrics_method = Cache\<rparr>;
             r2 = r1\<lparr>metrics := Some m\<rparr>;
             w3 = effect (RedisGet (scrapeCacheKey env u)) w2
         in scrapeWebContent env' w2 u = (Inr r2, w3) \<and>
            content r2 = content r1 \<and> success r2 = success r1 \<and>
            metrics_method m = Cache \<and>
            filter is_fetch_or_render (trace w3) = filter is_fetch_or_render (trace w2) \<and>
            redis_store w3 = redis_store w2"
proof -
  let ?key = "scrapeCacheKey env u"
  from same_hash have key: "scrapeCacheKey env' u = ?key"
    by (simp add: scrapeCacheKey_def)
  from scrape_populates [OF valid miss first ok stored] kept
  have "redis_store w2 ?key = Some (RString (JSON_stringify env r1))"
    by simp
  with readable nonempty roundtrip
  have hit: "getCachedContent env' w2 ?key = (Inr (Some r1), effect (RedisGet ?key) w2)"
    by (simp add: getCachedContent_def getCachedContent_try_def redis_get_def)
  from scrape_valid_returned [OF valid, of env' w2] try_hit [OF hit, of u "metrics0 env'"] key
  have "scrapeWebContent env' w2 u =
      (Inr (r1\<lparr>metrics := Some ((metrics0 env')\<lparr>metrics_method := Cache,
                 totalTime := performance_now env' 1 - startTime (metrics0 env')\<rparr>)\<rparr>),
       effect (RedisGet ?key) w2)"
    by simp
  then show ?thesis
    by (simp add: Let_def effect_def)
qed

theorem second_call_served_from_cache_witness:
  "sample_url \<noteq> [] \<and> startsWith sample_url (js ''http'') \<and>
   fst (getCachedContent env0 world0 (scrapeCacheKey env0 sample_url)) = Inr None \<and>
   scrapeWebContent env0 world0 sample_url = (Inr cached0, world1) \<and>
   success cached0 \<and>
   redis_set_error env0 (scrapeCacheKey env0 sample_url) = None \<and>
   redis_get_error env0 (scrapeCacheKey env0 sample_url) = None \<and>
   JSON_stringify env0 cached0 \<noteq> [] \<and>
   JSON_parse env0 (JSON_stringify env0 cached0) = Inr cached0 \<and>
   scrapeWebContent env0 world1 sample_url =
     (Inr (cached0\<lparr>metrics := Some \<lparr>startTime = 0, cheerioAttemptTime = None,
                                       puppeteerAttemptTime = None, totalTime = 1,
                                       metrics_success = False, metrics_method = Cache\<rparr>\<rparr>),
      effect (RedisGet (scrapeCacheKey env0 sample_url)) world1) \<and>
   filter is_fetch_or_render (trace (effect (RedisGet (scrapeCacheKey env0 sample_url)) world1)) =
     filter is_fetch_or_render (trace world1)"
proof -
  have valid: "sample_url \<noteq> []" "startsWith sample_url (js ''http'')"
    using sample_url_valid by simp_all
  have up: "redis_get_error env0 k = None" "redis_set_error env0 k = None" for k
    by (simp_all add: env0_def)
  have miss: "fst (getCachedContent env0 world0 (scrapeCacheKey env0 sample_url)) = Inr None"
    by (simp add: world0_miss up)
  have ok: "success cached0" and c: "content cached0 = sample_text"
    by (simp_all add: cached0_def)
  have nonempty: "JSON_stringify env0 cached0 \<noteq> []"
    and roundtrip: "JSON_parse env0 (JSON_stringify env0 cached0) = Inr cached0"
    by (simp_all add: env0_def c sample_text_nonempty)
  have now: "performance_now env0 0 = 0" "performance_now env0 1 = 1"
    by (simp_all add: env0_def)
  from second_call_served_from_cache [OF valid miss first_run ok up(2) refl refl up(1) nonempty roundtrip]
  have "scrapeWebContent env0 world1 sample_url =
     (Inr (cached0\<lparr>metrics := Some \<lparr>startTime = 0, cheerioAttemptTime = None,
                                       puppeteerAttemptTime = None, totalTime = 1,
                                       metrics_success = False, metrics_method = Cache\<rparr>\<rparr>),
      effect (RedisGet (scrapeCacheKey env0 sample_url)) world1)"
    and "filter is_fetch_or_render (trace (effect (RedisGet (scrapeCacheKey env0 sample_url)) world1)) =
     filter is_fetch_or_render (trace world1)"
    unfolding Let_def now by simp_all
  then show ?thesis
    using valid miss first_run ok up nonempty roundtrip by blast
qed

end
